theory Spec2Isabelle
  imports Complex_Main "HOL-Library.Word" "HOL-Library.Sublist"
begin

unbundle bit_operations_syntax

section \<open>JavaScript numbers and strings of the schedule utilities\<close>

text \<open>
  The schedule utilities compute with minutes since midnight. Their numbers are the
  integers that \<^verbatim>\<open>Number\<close> reads from numeric literals, and \<^verbatim>\<open>NaN\<close>.
  A missing element of a destructured array is \<^verbatim>\<open>undefined\<close>: \<open>None\<close> of
  \<open>jsnum option\<close>. The same option type stands for \<^verbatim>\<open>number | null\<close>
  results, \<open>None\<close> being \<^verbatim>\<open>null\<close>.
\<close>

datatype jsnum = Num int | NaN

fun isFinite :: "jsnum option \<Rightarrow> bool" where
  "isFinite (Some (Num i)) = True"
| "isFinite (Some NaN) = False"
| "isFinite None = False"

fun toNumber :: "jsnum option \<Rightarrow> jsnum" where
  "toNumber None = NaN"
| "toNumber (Some v) = v"

fun js_add :: "jsnum \<Rightarrow> jsnum \<Rightarrow> jsnum" where
  "js_add (Num a) (Num b) = Num (a + b)"
| "js_add NaN y = NaN"
| "js_add x NaN = NaN"

fun js_sub :: "jsnum \<Rightarrow> jsnum \<Rightarrow> jsnum" where
  "js_sub (Num a) (Num b) = Num (a - b)"
| "js_sub NaN y = NaN"
| "js_sub x NaN = NaN"

fun js_mul :: "jsnum \<Rightarrow> jsnum \<Rightarrow> jsnum" where
  "js_mul (Num a) (Num b) = Num (a * b)"
| "js_mul NaN y = NaN"
| "js_mul x NaN = NaN"

text \<open>Comparisons with \<^verbatim>\<open>NaN\<close> are false.\<close>

fun js_ge :: "jsnum \<Rightarrow> jsnum \<Rightarrow> bool" where
  "js_ge (Num a) (Num b) = (b \<le> a)"
| "js_ge NaN y = False"
| "js_ge x NaN = False"

fun js_lt :: "jsnum \<Rightarrow> jsnum \<Rightarrow> bool" where
  "js_lt (Num a) (Num b) = (a < b)"
| "js_lt NaN y = False"
| "js_lt x NaN = False"

fun js_le :: "jsnum \<Rightarrow> jsnum \<Rightarrow> bool" where
  "js_le (Num a) (Num b) = (a \<le> b)"
| "js_le NaN y = False"
| "js_le x NaN = False"

text \<open>
  \<^verbatim>\<open>Math.floor(x / d)\<close> and \<^verbatim>\<open>x % d\<close> for a positive integer constant \<open>d\<close>:
  the quotient is floored, the remainder takes the sign of the dividend.
\<close>

fun js_floor_div :: "jsnum \<Rightarrow> int \<Rightarrow> jsnum" where
  "js_floor_div (Num a) d = Num (a div d)"
| "js_floor_div NaN d = NaN"

fun js_rem :: "jsnum \<Rightarrow> int \<Rightarrow> jsnum" where
  "js_rem (Num a) d = Num (sgn a * (\<bar>a\<bar> mod \<bar>d\<bar>))"
| "js_rem NaN d = NaN"

subsection \<open>Number to string\<close>

definition digitChar :: "nat \<Rightarrow> char" where
  "digitChar d = ''0123456789'' ! d"

fun decDigits :: "nat \<Rightarrow> string" where
  "decDigits n = (if n < 10 then [digitChar n] else decDigits (n div 10) @ [digitChar (n mod 10)])"

declare decDigits.simps [simp del]

fun js_String :: "jsnum \<Rightarrow> string" where
  "js_String (Num i) = (if i < 0 then CHR ''-'' # decDigits (nat (- i)) else decDigits (nat i))"
| "js_String NaN = ''NaN''"

text \<open>\<^verbatim>\<open>s.padStart(2, "0")\<close>\<close>

definition padStart2 :: "string \<Rightarrow> string" where
  "padStart2 s = replicate (2 - length s) CHR ''0'' @ s"

definition two :: "jsnum \<Rightarrow> string" where
  "two n = padStart2 (js_String n)"

subsection \<open>String to number\<close>

text \<open>
  \<^verbatim>\<open>Number(s)\<close>. Surrounding white space is dropped; the empty string is 0; a
  numeric literal gives its value and any other text \<^verbatim>\<open>NaN\<close>. The literals are
  the decimal ones, with an optional sign, an optional fraction and an optional exponent
  (\<^verbatim>\<open>12\<close>, \<^verbatim>\<open>-7\<close>, \<^verbatim>\<open>5.\<close>, \<^verbatim>\<open>.50e1\<close>, \<^verbatim>\<open>1e1\<close>), and the unsigned
  ones with a radix prefix (\<^verbatim>\<open>0x1F\<close>, \<^verbatim>\<open>0o17\<close>, \<^verbatim>\<open>0b101\<close>). The value of a
  literal is its mathematical value, which the code's double holds exactly up to
  \<open>2\<^sup>5\<^sup>3\<close>. The numbers of this theory are integers: a literal whose value is
  not an integer (\<^verbatim>\<open>1.5\<close>, \<^verbatim>\<open>1e-1\<close>) and the literal \<^verbatim>\<open>Infinity\<close> have no
  counterpart among them, and \<open>js_Number\<close> gives \<open>NaN\<close> there, where the
  code has a fraction or an infinity. The clock parts and a \<^verbatim>\<open>HH:MM:SS\<close> column are
  digit strings.
\<close>

definition isWhite :: "char \<Rightarrow> bool" where
  "isWhite c = (c \<in> set [CHR 0x20, CHR 0x09, CHR 0x0A, CHR 0x0B, CHR 0x0C, CHR 0x0D])"

definition trim :: "string \<Rightarrow> string" where
  "trim s = rev (dropWhile isWhite (rev (dropWhile isWhite s)))"

definition isDigit :: "char \<Rightarrow> bool" where
  "isDigit c = (48 \<le> (of_char c :: nat) \<and> (of_char c :: nat) \<le> 57)"

definition digitVal :: "char \<Rightarrow> nat" where
  "digitVal c = of_char c - 48"

definition natOfDigits :: "string \<Rightarrow> nat" where
  "natOfDigits s = foldl (\<lambda>a c. 10 * a + digitVal c) 0 s"

text \<open>Digits of a radix up to 16, and the number they write.\<close>

definition radixVal :: "char \<Rightarrow> nat" where
  "radixVal c =
     (if isDigit c then digitVal c
      else if c \<in> set ''abcdef'' then of_char c - 87
      else if c \<in> set ''ABCDEF'' then of_char c - 55
      else 16)"

definition natOfRadix :: "nat \<Rightarrow> string \<Rightarrow> nat" where
  "natOfRadix b s = foldl (\<lambda>a c. b * a + radixVal c) 0 s"

text \<open>
  The exponent part that may end a decimal literal: nothing (exponent 0), or
  \<^verbatim>\<open>e\<close> or \<^verbatim>\<open>E\<close>, an optional sign and at least one digit. \<open>None\<close>: the
  text is no exponent part.
\<close>

definition exponent_part :: "string \<Rightarrow> int option" where
  "exponent_part r =
     (case r of
        [] \<Rightarrow> Some 0
      | c # ds \<Rightarrow>
          if c \<noteq> CHR ''e'' \<and> c \<noteq> CHR ''E'' then None
          else (case ds of
                  [] \<Rightarrow> None
                | d # es \<Rightarrow>
                    if d = CHR ''+'' \<or> d = CHR ''-''
                    then (if es \<noteq> [] \<and> list_all isDigit es
                          then Some ((if d = CHR ''-'' then - 1 else 1) * int (natOfDigits es))
                          else None)
                    else (if list_all isDigit ds then Some (int (natOfDigits ds)) else None)))"

text \<open>
  An unsigned decimal literal: digits, then optionally a point and digits, with a digit
  on at least one side of the point, then the exponent part. Its value is the number
  written by all the digits, times ten to the exponent less the number of fraction
  digits.
\<close>

definition decimal_literal :: "string \<Rightarrow> jsnum" where
  "decimal_literal u =
     (let ip = takeWhile isDigit u;
          r1 = dropWhile isDigit u;
          dot = (r1 \<noteq> [] \<and> hd r1 = CHR ''.'');
          fp = (if dot then takeWhile isDigit (tl r1) else []);
          r2 = (if dot then dropWhile isDigit (tl r1) else r1)
      in if ip = [] \<and> fp = [] then NaN
         else (case exponent_part r2 of
                 None \<Rightarrow> NaN
               | Some e \<Rightarrow>
                   (let m = natOfDigits (ip @ fp);
                        x = e - int (length fp)
                    in if m = 0 then Num 0
                       else if 0 \<le> x then Num (int (m * 10 ^ nat x))
                       else if m mod 10 ^ nat (- x) = 0 then Num (int (m div 10 ^ nat (- x)))
                       else NaN)))"

text \<open>A literal with a radix prefix: \<^verbatim>\<open>0x\<close>, \<^verbatim>\<open>0o\<close> or \<^verbatim>\<open>0b\<close> and at least one digit of the radix.\<close>

definition radix_literal :: "string \<Rightarrow> jsnum" where
  "radix_literal t =
     (case t of
        z # x # ds \<Rightarrow>
          (let b = (if x = CHR ''x'' \<or> x = CHR ''X'' then 16
                    else if x = CHR ''o'' \<or> x = CHR ''O'' then 8
                    else if x = CHR ''b'' \<or> x = CHR ''B'' then 2
                    else (0 :: nat))
           in if z = CHR ''0'' \<and> b \<noteq> 0 \<and> ds \<noteq> [] \<and> list_all (\<lambda>c. radixVal c < b) ds
              then Num (int (natOfRadix b ds))
              else NaN)
      | _ \<Rightarrow> NaN)"

definition numeric_literal :: "string \<Rightarrow> jsnum" where
  "numeric_literal t =
     (case t of
        [] \<Rightarrow> NaN
      | c # r \<Rightarrow>
          if c = CHR ''-'' then (case decimal_literal r of Num i \<Rightarrow> Num (- i) | NaN \<Rightarrow> NaN)
          else if c = CHR ''+'' then decimal_literal r
          else if isDigit c \<and> r \<noteq> [] \<and> hd r \<in> set ''xXoObB'' then radix_literal t
          else decimal_literal t)"

definition js_Number :: "string \<Rightarrow> jsnum" where
  "js_Number s =
     (let t = trim s in
      if t = [] then Num 0
      else if list_all isDigit t then Num (int (natOfDigits t))
      else (case t of
              [] \<Rightarrow> NaN
            | c # r \<Rightarrow>
                if (c = CHR ''+'' \<or> c = CHR ''-'') \<and> r \<noteq> [] \<and> list_all isDigit r
                then Num ((if c = CHR ''-'' then - 1 else 1) * int (natOfDigits r))
                else numeric_literal t))"

text \<open>\<^verbatim>\<open>s.split(":")\<close>: always at least one field.\<close>

fun split_on :: "char \<Rightarrow> string \<Rightarrow> string list" where
  "split_on c [] = [[]]"
| "split_on c (x # xs) =
     (if x = c then [] # split_on c xs
      else (case split_on c xs of [] \<Rightarrow> [[x]] | w # ws \<Rightarrow> (x # w) # ws))"

text \<open>Reading index \<open>i\<close> of an array: \<^verbatim>\<open>undefined\<close> past its end.\<close>

definition at_index :: "'a list \<Rightarrow> nat \<Rightarrow> 'a option" where
  "at_index xs i = (if i < length xs then Some (xs ! i) else None)"

section \<open>Schedule utilities\<close>

datatype PrayerKey = Fajr | Dhuhr | Asr | Maghrib | Isha

record PrayerRow =
  prayer :: PrayerKey
  start_time :: string
  jamaat_time :: string
  date :: string

definition PRAYER_ORDER :: "PrayerKey list" where
  "PRAYER_ORDER = [Fajr, Dhuhr, Asr, Maghrib, Isha]"

subsection \<open>The local clock\<close>

text \<open>
  \<^verbatim>\<open>new Intl.DateTimeFormat("en-GB", {timeZone, ...}).formatToParts(new Date())\<close>
  reads the clock of the platform. It is a parameter of the model: for a time zone
  identifier it gives the parts (type and text of each) of the current instant, or
  nothing when the platform rejects the identifier with a \<^verbatim>\<open>RangeError\<close>.
\<close>

datatype error = RangeError

type_synonym formatter = "string \<Rightarrow> (string \<times> string) list option"

record clock =
  year :: jsnum
  month :: jsnum
  day :: jsnum
  hour :: jsnum
  minute :: jsnum
  second :: jsnum
  weekday :: string
  timeZone :: string

text \<open>\<^verbatim>\<open>parts.find((p) => p.type === type)?.value ?? ""\<close>\<close>

definition get_part :: "(string \<times> string) list \<Rightarrow> string \<Rightarrow> string" where
  "get_part parts ty = (case find (\<lambda>p. fst p = ty) parts of None \<Rightarrow> [] | Some p \<Rightarrow> snd p)"

text \<open>\<^verbatim>\<open>tz || "Europe/Rome"\<close>: \<^verbatim>\<open>null\<close> and the empty string are falsy.\<close>

definition tz_or_default :: "string option \<Rightarrow> string" where
  "tz_or_default tz = (case tz of None \<Rightarrow> ''Europe/Rome'' | Some s \<Rightarrow> if s = [] then ''Europe/Rome'' else s)"

definition nowInTimeZone :: "formatter \<Rightarrow> string option \<Rightarrow> error + clock" where
  "nowInTimeZone fmt tz =
     (let timeZone = tz_or_default tz in
      case fmt timeZone of
        None \<Rightarrow> Inl RangeError
      | Some parts \<Rightarrow>
          Inr \<lparr> year = js_Number (get_part parts ''year''),
                month = js_Number (get_part parts ''month''),
                day = js_Number (get_part parts ''day''),
                hour = js_Number (get_part parts ''hour''),
                minute = js_Number (get_part parts ''minute''),
                second = js_Number (get_part parts ''second''),
                weekday = get_part parts ''weekday'',
                timeZone = timeZone \<rparr>)"

text \<open>The Aurora client's copy; its formatter asks for the long weekday name.\<close>

definition nowInTz :: "formatter \<Rightarrow> string option \<Rightarrow> error + clock" where
  "nowInTz fmt tz =
     (let timeZone = tz_or_default tz in
      case fmt timeZone of
        None \<Rightarrow> Inl RangeError
      | Some parts \<Rightarrow>
          Inr \<lparr> year = js_Number (get_part parts ''year''),
                month = js_Number (get_part parts ''month''),
                day = js_Number (get_part parts ''day''),
                hour = js_Number (get_part parts ''hour''),
                minute = js_Number (get_part parts ''minute''),
                second = js_Number (get_part parts ''second''),
                weekday = get_part parts ''weekday'',
                timeZone = timeZone \<rparr>)"

definition ymdFromClock :: "clock \<Rightarrow> string" where
  "ymdFromClock c = js_String (year c) @ ''-'' @ two (month c) @ ''-'' @ two (day c)"

definition ymd :: "clock \<Rightarrow> string" where
  "ymd c = js_String (year c) @ ''-'' @ two (month c) @ ''-'' @ two (day c)"

subsection \<open>Minutes of a time string\<close>

text \<open>The fields \<^verbatim>\<open>t.slice(0, 5).split(":").map(Number)\<close>.\<close>

definition time_fields :: "string \<Rightarrow> jsnum list" where
  "time_fields t = map js_Number (split_on CHR '':'' (take 5 t))"

definition timeToMinutes :: "string option \<Rightarrow> jsnum option" where
  "timeToMinutes t =
     (case t of
        None \<Rightarrow> None
      | Some s \<Rightarrow>
          if s = [] then None
          else
            (let hh = at_index (time_fields s) 0; mm = at_index (time_fields s) 1 in
             if \<not> isFinite hh \<or> \<not> isFinite mm then None
             else Some (js_add (js_mul (toNumber hh) (Num 60)) (toNumber mm))))"

definition timeToMins :: "string option \<Rightarrow> jsnum option" where
  "timeToMins t =
     (case t of
        None \<Rightarrow> None
      | Some s \<Rightarrow>
          if s = [] then None
          else
            (let h = at_index (time_fields s) 0; m = at_index (time_fields s) 1 in
             if isFinite h \<and> isFinite m
             then Some (js_add (js_mul (toNumber h) (Num 60)) (toNumber m))
             else None))"

text \<open>
  The legacy board has no such helper: it computes
  \<^verbatim>\<open>hh * 60 + mm\<close> from the destructured fields in place, with no check.
\<close>

definition legacy_minutes :: "string \<Rightarrow> jsnum" where
  "legacy_minutes t =
     (let hh = at_index (time_fields t) 0; mm = at_index (time_fields t) 1 in
      js_add (js_mul (toNumber hh) (Num 60)) (toNumber mm))"

subsection \<open>Next prayer\<close>

text \<open>The loop \<^verbatim>\<open>for (const key of PRAYER_ORDER)\<close> of the dashboard client.\<close>

fun scanPrayers :: "PrayerRow list \<Rightarrow> jsnum \<Rightarrow> PrayerKey list \<Rightarrow> (PrayerKey \<times> jsnum) option" where
  "scanPrayers todayRows minutesNow [] = None"
| "scanPrayers todayRows minutesNow (key # keys) =
     (case find (\<lambda>r. prayer r = key) todayRows of
        None \<Rightarrow> scanPrayers todayRows minutesNow keys
      | Some row \<Rightarrow>
          (case timeToMinutes (Some (jamaat_time row)) of
             None \<Rightarrow> scanPrayers todayRows minutesNow keys
           | Some mins \<Rightarrow>
               if js_ge mins minutesNow then Some (key, mins)
               else scanPrayers todayRows minutesNow keys))"

definition computeNextPrayer ::
  "formatter \<Rightarrow> PrayerRow list \<Rightarrow> string option \<Rightarrow> error + (PrayerKey \<times> jsnum) option" where
  "computeNextPrayer fmt prayers tz =
     (case nowInTimeZone fmt tz of
        Inl e \<Rightarrow> Inl e
      | Inr n \<Rightarrow>
          (let today = ymdFromClock n;
               minutesNow = js_add (js_mul (hour n) (Num 60)) (minute n);
               todayRows = filter (\<lambda>p. date p = today) prayers
           in Inr (case scanPrayers todayRows minutesNow PRAYER_ORDER of
                     Some r \<Rightarrow> Some r
                   | None \<Rightarrow>
                       (case find (\<lambda>r. prayer r = Fajr) todayRows of
                          None \<Rightarrow> None
                        | Some first \<Rightarrow>
                            (case timeToMinutes (Some (jamaat_time first)) of
                               None \<Rightarrow> None
                             | Some mins \<Rightarrow> Some (Fajr, mins))))))"

text \<open>The legacy board: the same scan on unchecked minutes.\<close>

fun scanPrayers_legacy :: "PrayerRow list \<Rightarrow> jsnum \<Rightarrow> PrayerKey list \<Rightarrow> (PrayerKey \<times> jsnum) option" where
  "scanPrayers_legacy todayRows minutesNow [] = None"
| "scanPrayers_legacy todayRows minutesNow (key # keys) =
     (case find (\<lambda>r. prayer r = key) todayRows of
        None \<Rightarrow> scanPrayers_legacy todayRows minutesNow keys
      | Some row \<Rightarrow>
          (let mins = legacy_minutes (jamaat_time row) in
           if js_ge mins minutesNow then Some (key, mins)
           else scanPrayers_legacy todayRows minutesNow keys))"

definition computeNextPrayer_legacy ::
  "formatter \<Rightarrow> PrayerRow list \<Rightarrow> string option \<Rightarrow> error + (PrayerKey \<times> jsnum) option" where
  "computeNextPrayer_legacy fmt prayers tz =
     (case nowInTimeZone fmt tz of
        Inl e \<Rightarrow> Inl e
      | Inr n \<Rightarrow>
          (let today = js_String (year n) @ ''-'' @ two (month n) @ ''-'' @ two (day n);
               minutesNow = js_add (js_mul (hour n) (Num 60)) (minute n);
               todayRows = filter (\<lambda>p. date p = today) prayers
           in Inr (case scanPrayers_legacy todayRows minutesNow PRAYER_ORDER of
                     Some r \<Rightarrow> Some r
                   | None \<Rightarrow>
                       (case find (\<lambda>r. prayer r = Fajr) todayRows of
                          None \<Rightarrow> None
                        | Some first \<Rightarrow> Some (Fajr, legacy_minutes (jamaat_time first))))))"

text \<open>The Aurora client: the result carries the row and the difference, and there is no fallback.\<close>

record NextPrayer =
  key :: PrayerKey
  row :: PrayerRow
  mins :: jsnum
  diff :: jsnum

fun scanPrayers_aurora :: "PrayerRow list \<Rightarrow> jsnum \<Rightarrow> PrayerKey list \<Rightarrow> NextPrayer option" where
  "scanPrayers_aurora todayRows nowM [] = None"
| "scanPrayers_aurora todayRows nowM (k # keys) =
     (case find (\<lambda>r. prayer r = k) todayRows of
        None \<Rightarrow> scanPrayers_aurora todayRows nowM keys
      | Some rw \<Rightarrow>
          (case timeToMins (Some (jamaat_time rw)) of
             None \<Rightarrow> scanPrayers_aurora todayRows nowM keys
           | Some ms \<Rightarrow>
               if js_ge ms nowM
               then Some \<lparr> key = k, row = rw, mins = ms, diff = js_sub ms nowM \<rparr>
               else scanPrayers_aurora todayRows nowM keys))"

definition getNextPrayer ::
  "formatter \<Rightarrow> PrayerRow list \<Rightarrow> string option \<Rightarrow> error + NextPrayer option" where
  "getNextPrayer fmt prayers tz =
     (case nowInTz fmt tz of
        Inl e \<Rightarrow> Inl e
      | Inr n \<Rightarrow>
          (let today = ymd n;
               nowM = js_add (js_mul (hour n) (Num 60)) (minute n);
               todayRows = filter (\<lambda>p. date p = today) prayers
           in Inr (scanPrayers_aurora todayRows nowM PRAYER_ORDER)))"

subsection \<open>Countdown\<close>

definition emDash :: string where
  "emDash = [CHR 0xE2, CHR 0x80, CHR 0x94]"

text \<open>The \<^verbatim>\<open>countdown\<close> memo of the dashboard client and of the legacy board.\<close>

definition countdown ::
  "formatter \<Rightarrow> (PrayerKey \<times> jsnum) option \<Rightarrow> string option \<Rightarrow> error + string" where
  "countdown fmt next tz =
     (case next of
        None \<Rightarrow> Inr emDash
      | Some nx \<Rightarrow>
          (case nowInTimeZone fmt tz of
             Inl e \<Rightarrow> Inl e
           | Inr n \<Rightarrow>
               (let nowM = js_add (js_mul (hour n) (Num 60)) (minute n);
                    diff0 = js_sub (snd nx) nowM;
                    diff = (if js_lt diff0 (Num 0) then js_add diff0 (Num (24 * 60)) else diff0);
                    h = js_floor_div diff 60;
                    m = js_rem diff 60
                in if js_le h (Num 0) then Inr (js_String m @ '' min'')
                   else Inr (js_String h @ ''h '' @ js_String m @ ''m''))))"

text \<open>The Aurora client formats the stored difference.\<close>

definition formatCountdown :: "jsnum \<Rightarrow> string" where
  "formatCountdown ms =
     (if js_lt ms (Num 60) then js_String ms @ '' min''
      else
        (let h = js_floor_div ms 60; m = js_rem ms 60 in
         if m = Num 0 then js_String h @ ''h''
         else js_String h @ ''h '' @ js_String m @ ''m''))"

section \<open>The offline cache worker\<close>

text \<open>
  A request is a same-origin GET request, named by its URL; two requests are equal when
  the cache storage does not tell them apart. The cache storage of the origin is the
  list of its named caches in the order of their creation; \<^verbatim>\<open>caches.match\<close> asks
  them in that order. The network is a parameter: what \<^verbatim>\<open>fetch\<close> answers for a
  request, or nothing when it throws. The worker's state holds the cache storage and the
  log of the requests sent to the network. A response has its status, its header fields
  in order, and its body.
\<close>

type_synonym request = string

record response =
  status :: nat
  headers :: "(string \<times> string) list"
  body :: string

type_synonym cache_storage = "(string \<times> (request \<rightharpoonup> response)) list"

type_synonym network = "request \<Rightarrow> response option"

record worker =
  caches :: cache_storage
  fetches :: "request list"

definition VERSION :: string where
  "VERSION = ''v1''"

definition APP_SHELL_CACHE :: string where
  "APP_SHELL_CACHE = ''ummahway-shell-'' @ VERSION"

definition API_CACHE :: string where
  "API_CACHE = ''ummahway-api-'' @ VERSION"

text \<open>\<^verbatim>\<open>caches.match(request)\<close>\<close>

fun caches_match :: "cache_storage \<Rightarrow> request \<Rightarrow> response option" where
  "caches_match [] req = None"
| "caches_match ((nm, c) # rest) req =
     (case c req of Some r \<Rightarrow> Some r | None \<Rightarrow> caches_match rest req)"

text \<open>\<^verbatim>\<open>caches.open(name)\<close>: the cache of that name, created empty and last when it is new.\<close>

fun caches_open :: "string \<Rightarrow> cache_storage \<Rightarrow> cache_storage" where
  "caches_open nm [] = [(nm, Map.empty)]"
| "caches_open nm ((n, c) # rest) =
     (if n = nm then (n, c) # rest else (n, c) # caches_open nm rest)"

text \<open>
  \<^verbatim>\<open>cache.put(request, response)\<close> on the cache of a name. The platform refuses
  a response with status 206 and one whose \<^verbatim>\<open>Vary\<close> header (the name in any
  letter case) has \<^verbatim>\<open>*\<close> among its comma-separated field values: the promise of
  the put is rejected and nothing is stored. The worker neither waits for that promise
  nor catches its rejection, so a refused put leaves the cache as it was and the
  worker's answer is not affected. An accepted put replaces what the cache held for the
  request; it is entered here when the strategy returns, and the storage is taken to
  have room for it.
\<close>

definition ascii_lower :: "char \<Rightarrow> char" where
  "ascii_lower c =
     (case map_of (zip ''ABCDEFGHIJKLMNOPQRSTUVWXYZ'' ''abcdefghijklmnopqrstuvwxyz'') c of
        Some l \<Rightarrow> l
      | None \<Rightarrow> c)"

definition header_values :: "response \<Rightarrow> string \<Rightarrow> string list" where
  "header_values r name = map snd (filter (\<lambda>h. map ascii_lower (fst h) = name) (headers r))"

definition put_accepts :: "response \<Rightarrow> bool" where
  "put_accepts r =
     (status r \<noteq> 206
      \<and> ''*'' \<notin> set (concat (map (\<lambda>v. map trim (split_on CHR '','' v)) (header_values r ''vary''))))"

fun cache_put :: "string \<Rightarrow> request \<Rightarrow> response \<Rightarrow> cache_storage \<Rightarrow> cache_storage" where
  "cache_put nm req r [] = []"
| "cache_put nm req r ((n, c) # rest) =
     (if n = nm then (n, c(req \<mapsto> r)) # rest else (n, c) # cache_put nm req r rest)"

text \<open>
  The two lines \<^verbatim>\<open>const cache = await caches.open(name); cache.put(request, fresh.clone())\<close>
  of each strategy.
\<close>

definition open_put :: "string \<Rightarrow> request \<Rightarrow> response \<Rightarrow> cache_storage \<Rightarrow> cache_storage" where
  "open_put nm req r cs =
     (let cs1 = caches_open nm cs in if put_accepts r then cache_put nm req r cs1 else cs1)"

text \<open>What the cache of a given name holds for a request.\<close>

definition cache_lookup :: "string \<Rightarrow> cache_storage \<Rightarrow> request \<Rightarrow> response option" where
  "cache_lookup nm cs req = (case map_of cs nm of None \<Rightarrow> None | Some c \<Rightarrow> c req)"

definition fetch :: "network \<Rightarrow> worker \<Rightarrow> request \<Rightarrow> response option \<times> worker" where
  "fetch net w req = (net req, w\<lparr> fetches := fetches w @ [req] \<rparr>)"

datatype sw_error = FetchFailed | OfflineWithoutShell

definition cacheFirst :: "network \<Rightarrow> worker \<Rightarrow> request \<Rightarrow> (sw_error + response) \<times> worker" where
  "cacheFirst net w request =
     (case caches_match (caches w) request of
        Some cached \<Rightarrow> (Inr cached, w)
      | None \<Rightarrow>
          (case fetch net w request of
             (None, w1) \<Rightarrow> (Inl FetchFailed, w1)
           | (Some fresh, w1) \<Rightarrow>
               (Inr fresh, w1\<lparr> caches := open_put APP_SHELL_CACHE request fresh (caches w1) \<rparr>)))"

definition offline_response :: response where
  \<open>offline_response =
     \<lparr> status = 503,
       headers = [(''Content-Type'', ''application/json'')],
       body = ''{"error":"Offline and no cache"}'' \<rparr>\<close>

definition networkFirst :: "network \<Rightarrow> worker \<Rightarrow> request \<Rightarrow> response \<times> worker" where
  "networkFirst net w request =
     (case fetch net w request of
        (Some fresh, w1) \<Rightarrow>
          (fresh, w1\<lparr> caches := open_put API_CACHE request fresh (caches w1) \<rparr>)
      | (None, w1) \<Rightarrow>
          (case caches_match (caches w1) request of
             Some cached \<Rightarrow> (cached, w1)
           | None \<Rightarrow> (offline_response, w1)))"

definition networkWithShellFallback ::
  "network \<Rightarrow> worker \<Rightarrow> request \<Rightarrow> (sw_error + response) \<times> worker" where
  "networkWithShellFallback net w request =
     (case fetch net w request of
        (Some fresh, w1) \<Rightarrow>
          (Inr fresh, w1\<lparr> caches := open_put APP_SHELL_CACHE request fresh (caches w1) \<rparr>)
      | (None, w1) \<Rightarrow>
          (case caches_match (caches w1) request of
             Some cached \<Rightarrow> (Inr cached, w1)
           | None \<Rightarrow>
               (case caches_match (caches w1) ''/'' of
                  Some shell \<Rightarrow> (Inr shell, w1)
                | None \<Rightarrow> (Inl OfflineWithoutShell, w1))))"

section \<open>JSON values of the remote data proxies\<close>

text \<open>
  The proxies pass numbers through without arithmetic: a finite number is a real number
  here, beside \<^verbatim>\<open>NaN\<close> and the two infinities. A value is what
  \<^verbatim>\<open>JSON.parse\<close> gives or what the handlers build, \<^verbatim>\<open>undefined\<close> included;
  an object is the list of its properties.
\<close>

datatype js_number = Finite real | Not_a_Number | Infinity | Neg_Infinity

datatype jsval =
    JUndefined
  | JNull
  | JBool bool
  | JNum js_number
  | JStr string
  | JArr "jsval list"
  | JObj "(string \<times> jsval) list"

text \<open>\<^verbatim>\<open>v?.p\<close>, and \<^verbatim>\<open>v?.[i]\<close> for an index.\<close>

fun get_prop :: "jsval \<Rightarrow> string \<Rightarrow> jsval" where
  "get_prop (JObj kvs) p = (case map_of kvs p of None \<Rightarrow> JUndefined | Some v \<Rightarrow> v)"
| "get_prop v p = JUndefined"

fun get_index :: "jsval \<Rightarrow> nat \<Rightarrow> jsval" where
  "get_index (JArr xs) i = (if i < length xs then xs ! i else JUndefined)"
| "get_index (JStr s) i = (if i < length s then JStr [s ! i] else JUndefined)"
| "get_index (JObj kvs) i = get_prop (JObj kvs) (decDigits i)"
| "get_index v i = JUndefined"

text \<open>Truthiness, \<^verbatim>\<open>a || b\<close> and \<^verbatim>\<open>a ?? b\<close>.\<close>

fun truthy :: "jsval \<Rightarrow> bool" where
  "truthy JUndefined = False"
| "truthy JNull = False"
| "truthy (JBool b) = b"
| "truthy (JNum n) = (n \<noteq> Finite 0 \<and> n \<noteq> Not_a_Number)"
| "truthy (JStr s) = (s \<noteq> [])"
| "truthy (JArr xs) = True"
| "truthy (JObj kvs) = True"

definition js_or :: "jsval \<Rightarrow> jsval \<Rightarrow> jsval" where
  "js_or a b = (if truthy a then a else b)"


text \<open>
  What a client parses from \<^verbatim>\<open>JSON.stringify(v)\<close>: a number that is not finite
  becomes \<^verbatim>\<open>null\<close>, a property whose value is \<^verbatim>\<open>undefined\<close> is left out,
  \<^verbatim>\<open>undefined\<close> in an array becomes \<^verbatim>\<open>null\<close>.
\<close>

fun json_wire :: "jsval \<Rightarrow> jsval" where
  "json_wire (JNum (Finite q)) = JNum (Finite q)"
| "json_wire (JNum Not_a_Number) = JNull"
| "json_wire (JNum Infinity) = JNull"
| "json_wire (JNum Neg_Infinity) = JNull"
| "json_wire (JArr xs) = JArr (map json_wire xs)"
| "json_wire (JObj kvs) =
     JObj (map (\<lambda>(k, v). (k, json_wire v)) (filter (\<lambda>(k, v). v \<noteq> JUndefined) kvs))"
| "json_wire JUndefined = JNull"
| "json_wire JNull = JNull"
| "json_wire (JBool b) = JBool b"
| "json_wire (JStr s) = JStr s"

section \<open>Upstream services and proxy responses\<close>

text \<open>
  What a \<^verbatim>\<open>fetch\<close> of an upstream URL gives: it throws, or it answers with an HTTP
  status and a body, which \<^verbatim>\<open>r.json()\<close> parses (nothing when the body is no JSON).
\<close>

datatype upstream = Unreachable | Reply nat "jsval option"

definition ok :: "nat \<Rightarrow> bool" where
  "ok st = (200 \<le> st \<and> st \<le> 299)"

datatype proxy_error =
    NetworkFailure | HttpStatus nat string | InvalidJson | HadithFetchFailed | MissingText | NotAFunction

text \<open>
  The conversions \<^verbatim>\<open>Number(v)\<close> and \<^verbatim>\<open>String(v)\<close> on JSON values, \<^verbatim>\<open>Number(s)\<close>
  on query text and the messages of the platform's own errors are parameters.
\<close>

record platform =
  to_number :: "jsval \<Rightarrow> js_number"
  to_string :: "jsval \<Rightarrow> string"
  parse_number :: "string \<Rightarrow> js_number"
  network_message :: string
  json_message :: string

record api_response =
  code :: nat
  payload :: jsval
  cache_control :: "string option"

text \<open>\<^verbatim>\<open>NextResponse.json(v, {status, headers})\<close>: the client reads \<open>json_wire v\<close>.\<close>

definition NextResponse_json :: "jsval \<Rightarrow> nat \<Rightarrow> string option \<Rightarrow> api_response" where
  "NextResponse_json v st cc = \<lparr> code = st, payload = json_wire v, cache_control = cc \<rparr>"

section \<open>Hadith proxy\<close>













section \<open>Weather proxy\<close>

text \<open>\<^verbatim>\<open>typeof v === "number" && Number.isFinite(v) ? v : null\<close>\<close>

fun num :: "jsval \<Rightarrow> jsval" where
  "num (JNum (Finite x)) = JNum (Finite x)"
| "num v = JNull"

text \<open>The query: \<^verbatim>\<open>searchParams.get\<close> of each name, \<open>None\<close> when it is absent.\<close>

record query =
  q_city :: "string option"
  q_tz :: "string option"
  q_lat :: "string option"
  q_lon :: "string option"

definition present :: "string option \<Rightarrow> bool" where
  "present p = (case p of None \<Rightarrow> False | Some s \<Rightarrow> s \<noteq> [])"

fun join_with :: "string \<Rightarrow> string list \<Rightarrow> string" where
  "join_with sep [] = []"
| "join_with sep [x] = x"
| "join_with sep (x # y # ys) = x @ sep @ join_with sep (y # ys)"

definition error_json :: "string \<Rightarrow> nat \<Rightarrow> api_response" where
  "error_json msg st = NextResponse_json (JObj [(''error'', JStr msg)]) st None"

text \<open>
  The object \<^verbatim>\<open>out\<close>, from the location and the forecast payload \<open>f\<close>. Calling
  \<^verbatim>\<open>map\<close> on a \<^verbatim>\<open>daily.time\<close> that is truthy and no array throws a
  \<^verbatim>\<open>TypeError\<close>.
\<close>

definition daily_entry :: "jsval \<Rightarrow> jsval \<Rightarrow> jsval \<Rightarrow> jsval \<Rightarrow> nat \<times> jsval \<Rightarrow> jsval" where
  "daily_entry tmaxArr tminArr ppArr wcArr e =
     (case e of (i, d) \<Rightarrow>
        JObj [(''date'', d),
              (''tmax'', num (get_index tmaxArr i)),
              (''tmin'', num (get_index tminArr i)),
              (''precipProbMax'', num (get_index ppArr i)),
              (''weathercode'', num (get_index wcArr i))])"

definition weather_out :: "string \<Rightarrow> jsval \<Rightarrow> jsval \<Rightarrow> jsval \<Rightarrow> proxy_error + jsval" where
  "weather_out locName latitude longitude f =
     (let daily = get_prop f ''daily'';
          dailyTimes = js_or (get_prop daily ''time'') (JArr []);
          tmaxArr = js_or (get_prop daily ''temperature_2m_max'') (JArr []);
          tminArr = js_or (get_prop daily ''temperature_2m_min'') (JArr []);
          ppArr = js_or (get_prop daily ''precipitation_probability_max'') (JArr []);
          wcArr = js_or (get_prop daily ''weathercode'') (JArr [])
      in case dailyTimes of
           JArr ds \<Rightarrow>
             Inr (JObj
               [(''location'',
                   JObj [(''name'', JStr locName), (''latitude'', latitude), (''longitude'', longitude)]),
                (''current'',
                   JObj [(''temperature'', num (get_prop (get_prop f ''current_weather'') ''temperature'')),
                         (''weathercode'', num (get_prop (get_prop f ''current_weather'') ''weathercode''))]),
                (''daily'', JArr (map (daily_entry tmaxArr tminArr ppArr wcArr) (enumerate 0 ds)))])
         | _ \<Rightarrow> Inl NotAFunction)"

definition forecast_step :: "upstream \<Rightarrow> string \<Rightarrow> jsval \<Rightarrow> jsval \<Rightarrow> proxy_error + api_response" where
  "forecast_step fRes locName latitude longitude =
     (case fRes of
        Unreachable \<Rightarrow> Inl NetworkFailure
      | Reply st b \<Rightarrow>
          if \<not> ok st then Inr (error_json ''Forecast failed'' 502)
          else (case b of
                  None \<Rightarrow> Inl InvalidJson
                | Some f \<Rightarrow>
                    (case weather_out locName latitude longitude f of
                       Inl e \<Rightarrow> Inl e
                     | Inr out \<Rightarrow>
                         Inr (NextResponse_json out 200
                                (Some ''public, s-maxage=900, stale-while-revalidate=1800'')))))"

text \<open>
  The geocoding branch of the handler, taken when a coordinate is missing; \<open>geoRes\<close>
  and \<open>fRes\<close> are what the geocoding and the forecast service answer to the requests
  the handler sends them.
\<close>

definition geocode_step :: "platform \<Rightarrow> upstream \<Rightarrow> upstream \<Rightarrow> string \<Rightarrow> proxy_error + api_response" where
  "geocode_step pf geoRes fRes city =
     (case geoRes of
        Unreachable \<Rightarrow> Inl NetworkFailure
      | Reply st b \<Rightarrow>
          if \<not> ok st then Inr (error_json ''Geocoding failed'' 502)
          else (case b of
                  None \<Rightarrow> Inl InvalidJson
                | Some geo \<Rightarrow>
                    (let first = get_index (get_prop geo ''results'') 0;
                         latitude = num (get_prop first ''latitude'');
                         longitude = num (get_prop first ''longitude'');
                         joined = join_with '', ''
                           (map (to_string pf)
                              (filter truthy
                                 [get_prop first ''name'', get_prop first ''admin1'',
                                  get_prop first ''country'']));
                         locName = (if joined = [] then city else joined)
                     in if latitude = JNull \<or> longitude = JNull
                        then Inr (error_json ''City not found'' 404)
                        else forecast_step fRes locName latitude longitude)))"

definition GET_weather :: "platform \<Rightarrow> upstream \<Rightarrow> upstream \<Rightarrow> query \<Rightarrow> proxy_error + api_response" where
  "GET_weather pf geoRes fRes q =
     (let city = trim (case q_city q of None \<Rightarrow> [] | Some s \<Rightarrow> s);
          latQ = q_lat q;
          lonQ = q_lon q
      in if city = [] \<and> (\<not> present latQ \<or> \<not> present lonQ)
         then Inr (error_json ''Missing city (or lat/lon)'' 400)
         else
           (let latitude = (case latQ of None \<Rightarrow> JNull
                            | Some s \<Rightarrow> if s = [] then JNull else JNum (parse_number pf s));
                longitude = (case lonQ of None \<Rightarrow> JNull
                             | Some s \<Rightarrow> if s = [] then JNull else JNum (parse_number pf s));
                locName = (if city = [] then ''Unknown'' else city)
            in if latitude = JNull \<or> longitude = JNull
               then geocode_step pf geoRes fRes city
               else forecast_step fRes locName latitude longitude))"

section \<open>The specification's reading of the schedule utilities\<close>

text \<open>
  Written from the specification's words, to be compared with the code above. For a
  prayer name, the candidates are today's rows of that prayer whose minutes (as
  \<open>minutesOf\<close> reads them) are at or after the current minute; the names are
  scanned in the canonical order and the first candidate is the next prayer; when there
  is none, the next prayer is fajr's row, if it has one with a minute value.
\<close>

definition spec_candidates ::
  "(PrayerRow \<Rightarrow> jsnum option) \<Rightarrow> PrayerRow list \<Rightarrow> jsnum \<Rightarrow> PrayerKey \<Rightarrow> (PrayerKey \<times> PrayerRow \<times> jsnum) list" where
  "spec_candidates minutesOf rows now k =
     [(k, r, m). r \<leftarrow> rows, prayer r = k, m \<leftarrow> (case minutesOf r of None \<Rightarrow> [] | Some m \<Rightarrow> [m]), js_ge m now]"

definition spec_upcoming ::
  "(PrayerRow \<Rightarrow> jsnum option) \<Rightarrow> PrayerRow list \<Rightarrow> jsnum \<Rightarrow> (PrayerKey \<times> PrayerRow \<times> jsnum) list" where
  "spec_upcoming minutesOf rows now =
     concat (map (spec_candidates minutesOf rows now) [Fajr, Dhuhr, Asr, Maghrib, Isha])"

definition spec_fajr :: "(PrayerRow \<Rightarrow> jsnum option) \<Rightarrow> PrayerRow list \<Rightarrow> jsnum list" where
  "spec_fajr minutesOf rows =
     [m. r \<leftarrow> rows, prayer r = Fajr, m \<leftarrow> (case minutesOf r of None \<Rightarrow> [] | Some m \<Rightarrow> [m])]"

definition spec_nextPrayer ::
  "(PrayerRow \<Rightarrow> jsnum option) \<Rightarrow> PrayerRow list \<Rightarrow> jsnum \<Rightarrow> (PrayerKey \<times> jsnum) option" where
  "spec_nextPrayer minutesOf rows now =
     (case spec_upcoming minutesOf rows now of
        (k, r, m) # rest \<Rightarrow> Some (k, m)
      | [] \<Rightarrow> (case spec_fajr minutesOf rows of m # rest \<Rightarrow> Some (Fajr, m) | [] \<Rightarrow> None))"

text \<open>The first candidate, in the shape the dashboard client and the Aurora client return it.\<close>

definition first_of :: "(PrayerKey \<times> PrayerRow \<times> jsnum) list \<Rightarrow> (PrayerKey \<times> jsnum) option" where
  "first_of cs = (case cs of [] \<Rightarrow> None | (k, r, m) # rest \<Rightarrow> Some (k, m))"

definition first_next :: "jsnum \<Rightarrow> (PrayerKey \<times> PrayerRow \<times> jsnum) list \<Rightarrow> NextPrayer option" where
  "first_next now cs =
     (case cs of
        [] \<Rightarrow> None
      | (k, r, m) # rest \<Rightarrow> Some \<lparr> key = k, row = r, mins = m, diff = js_sub m now \<rparr>)"

text \<open>
  The countdown: the difference, a day's minutes added when it is negative, shown as
  minutes under one hour and as hours and minutes otherwise.
\<close>

definition spec_countdown_minutes :: "int \<Rightarrow> int \<Rightarrow> int" where
  "spec_countdown_minutes nextM nowM =
     (if nextM - nowM < 0 then nextM - nowM + 1440 else nextM - nowM)"

definition spec_format :: "int \<Rightarrow> string" where
  "spec_format d =
     (if d < 60 then js_String (Num d) @ '' min''
      else js_String (Num (d div 60)) @ ''h '' @ js_String (Num (d mod 60)) @ ''m'')"

section \<open>The specification's reading of the proxies\<close>

text \<open>
  A numeric field of the weather output is a finite number or \<^verbatim>\<open>null\<close>. A value
  is clean when \<^verbatim>\<open>JSON.stringify\<close> keeps it as it is. The field of day \<open>i\<close>
  read from an upstream per-day array is its element \<open>i\<close> when the array has one and
  it is a finite number, and \<^verbatim>\<open>null\<close> otherwise; a value that is no array is
  indexed as JavaScript indexes it. The candidate URLs of an edition and a seed are the
  four URLs of each of the five guesses, in order.
\<close>

definition fin_or_null :: "jsval \<Rightarrow> bool" where
  "fin_or_null v = (case v of JNull \<Rightarrow> True | JNum (Finite x) \<Rightarrow> True | _ \<Rightarrow> False)"






section \<open>Sample data\<close>

text \<open>
  The parts of Monday 2 November 2026 in the \<^verbatim>\<open>en-GB\<close> format, at a given hour and
  minute, from a platform that knows the zone \<^verbatim>\<open>Europe/Rome\<close> only; and the
  specification's five rows.
\<close>

definition gb_parts :: "string \<Rightarrow> string \<Rightarrow> (string \<times> string) list" where
  "gb_parts hh mm =
     [(''weekday'', ''Mon''), (''literal'', '', ''), (''day'', ''02''), (''literal'', ''/''),
      (''month'', ''11''), (''literal'', ''/''), (''year'', ''2026''), (''literal'', '', ''),
      (''hour'', hh), (''literal'', '':''), (''minute'', mm), (''literal'', '':''),
      (''second'', ''07'')]"

definition rome_at :: "string \<Rightarrow> string \<Rightarrow> formatter" where
  "rome_at hh mm z = (if z = ''Europe/Rome'' then Some (gb_parts hh mm) else None)"

definition clock_at :: "int \<Rightarrow> int \<Rightarrow> clock" where
  "clock_at h mi =
     \<lparr> year = Num 2026, month = Num 11, day = Num 2, hour = Num h, minute = Num mi,
       second = Num 7, weekday = ''Mon'', timeZone = ''Europe/Rome'' \<rparr>"

definition sample_row :: "PrayerKey \<Rightarrow> string \<Rightarrow> string \<Rightarrow> PrayerRow" where
  "sample_row k s j = \<lparr> prayer = k, start_time = s, jamaat_time = j, date = ''2026-11-02'' \<rparr>"

definition sample_rows :: "PrayerRow list" where
  "sample_rows =
     [sample_row Fajr ''05:00:00'' ''05:20:00'', sample_row Dhuhr ''13:00:00'' ''13:15:00'',
      sample_row Asr ''16:00:00'' ''16:20:00'', sample_row Maghrib ''19:00:00'' ''19:05:00'',
      sample_row Isha ''20:30:00'' ''20:45:00'']"

text \<open>A row of the day before, and a fajr row whose time lacks the minutes.\<close>

definition stale_row :: PrayerRow where
  "stale_row = \<lparr> prayer = Fajr, start_time = ''22:30:00'', jamaat_time = ''23:00:00'', date = ''2026-11-01'' \<rparr>"

definition short_fajr :: PrayerRow where
  "short_fajr = \<lparr> prayer = Fajr, start_time = ''05:00:00'', jamaat_time = ''05'', date = ''2026-11-02'' \<rparr>"

text \<open>
  Responses (among them a partial one and one that varies on everything), a worker after
  install, one whose API cache was created first, one with a cached API response, and a
  network that is down or that answers (with a server error for everything but the
  three requests it knows).
\<close>

definition icon :: response where
  "icon = \<lparr> status = 200, headers = [(''Content-Type'', ''image/x-icon'')], body = ''ICO'' \<rparr>"

definition script :: response where
  "script = \<lparr> status = 200, headers = [(''Content-Type'', ''text/javascript'')], body = ''js'' \<rparr>"

definition server_error :: response where
  "server_error = \<lparr> status = 500, headers = [], body = ''Internal Server Error'' \<rparr>"

definition partial_content :: response where
  "partial_content =
     \<lparr> status = 206, headers = [(''Content-Range'', ''bytes 0-1/2'')], body = ''by'' \<rparr>"

definition varying :: response where
  "varying = \<lparr> status = 200, headers = [(''Vary'', ''Accept, *'')], body = ''{}'' \<rparr>"

definition installed :: worker where
  "installed = \<lparr> caches = [(APP_SHELL_CACHE, [''/favicon.ico'' \<mapsto> icon])], fetches = [] \<rparr>"

definition offline :: network where
  "offline req = None"

definition online :: network where
  "online req =
     (if req = ''/_next/static/app.js'' then Some script
      else if req = ''/_next/static/media/intro.mp4'' then Some partial_content
      else if req = ''/api/varying'' then Some varying
      else Some server_error)"

definition api_first :: worker where
  "api_first =
     \<lparr> caches = [(API_CACHE, [''/favicon.ico'' \<mapsto> script]),
                  (APP_SHELL_CACHE, [''/favicon.ico'' \<mapsto> icon])],
       fetches = [] \<rparr>"

definition api_cached :: worker where
  "api_cached = \<lparr> caches = [(APP_SHELL_CACHE, Map.empty), (API_CACHE, [''/api/hadith'' \<mapsto> script])], fetches = [] \<rparr>"

text \<open>
  A platform that converts the values of the samples as JavaScript does (a number to
  itself, a string to itself, the text \<^verbatim>\<open>9.25\<close> to that number, other text to
  \<^verbatim>\<open>NaN\<close>); a forecast payload with a text for the temperature and per-day arrays
  of different lengths; the query, and the response expected for them.
\<close>

definition sample_platform :: platform where
  "sample_platform =
     \<lparr> to_number = (\<lambda>v. case v of JNum n \<Rightarrow> n | _ \<Rightarrow> Not_a_Number),
       to_string = (\<lambda>v. case v of JStr s \<Rightarrow> s | _ \<Rightarrow> []),
       parse_number = (\<lambda>s. if s = ''9.25'' then Finite (37 / 4) else Not_a_Number),
       network_message = ''fetch failed'',
       json_message = ''Unexpected end of JSON input'' \<rparr>"

definition sample_forecast :: jsval where
  "sample_forecast =
     JObj [(''current_weather'',
              JObj [(''temperature'', JStr ''hot''), (''weathercode'', JNum (Finite 3))]),
           (''daily'',
              JObj [(''time'', JArr [JStr ''2026-11-02'', JStr ''2026-11-03'']),
                    (''temperature_2m_max'', JArr [JNum (Finite 21)]),
                    (''temperature_2m_min'', JArr [JStr ''cold'', JNum (Finite 9)]),
                    (''precipitation_probability_max'', JArr [JNull, JNum Infinity])])]"

definition sample_query :: query where
  "sample_query = \<lparr> q_city = None, q_tz = None, q_lat = Some ''abc'', q_lon = Some ''9.25'' \<rparr>"

definition sample_days :: "jsval list" where
  "sample_days =
     [JObj [(''date'', JStr ''2026-11-02''), (''tmax'', JNum (Finite 21)), (''tmin'', JNull),
            (''precipProbMax'', JNull), (''weathercode'', JNull)],
      JObj [(''date'', JStr ''2026-11-03''), (''tmax'', JNull), (''tmin'', JNum (Finite 9)),
            (''precipProbMax'', JNull), (''weathercode'', JNull)]]"

definition sample_weather :: api_response where
  "sample_weather =
     \<lparr> code = 200,
       payload =
         JObj [(''location'',
                  JObj [(''name'', JStr ''Unknown''), (''latitude'', JNull),
                        (''longitude'', JNum (Finite (37 / 4)))]),
               (''current'', JObj [(''temperature'', JNull), (''weathercode'', JNum (Finite 3))]),
               (''daily'', JArr sample_days)],
       cache_control = Some ''public, s-maxage=900, stale-while-revalidate=1800'' \<rparr>"








section \<open>Next prayer: the scan and the specification\<close>

lemma candidates_Nil: "spec_candidates mf [] now k = []"
  by (simp add: spec_candidates_def)

lemma candidates_Cons:
  "spec_candidates mf (x # xs) now k =
     (if prayer x = k
      then (case mf x of None \<Rightarrow> [] | Some m \<Rightarrow> if js_ge m now then [(k, x, m)] else [])
      else []) @ spec_candidates mf xs now k"
  by (simp add: spec_candidates_def split: option.splits)

lemma candidates_absent:
  "\<forall>r \<in> set rows. prayer r \<noteq> k \<Longrightarrow> spec_candidates mf rows now k = []"
  by (induction rows) (simp_all add: candidates_Nil candidates_Cons)

lemma candidates_find:
  "distinct (map prayer rows) \<Longrightarrow>
   spec_candidates mf rows now k =
     (case find (\<lambda>r. prayer r = k) rows of
        None \<Rightarrow> []
      | Some r \<Rightarrow> (case mf r of None \<Rightarrow> [] | Some m \<Rightarrow> if js_ge m now then [(k, r, m)] else []))"
proof (induction rows)
  case Nil
  show ?case by (simp add: candidates_Nil)
next
  case (Cons x xs)
  show ?case
  proof (cases "prayer x = k")
    case True
    with Cons.prems have "\<forall>r \<in> set xs. prayer r \<noteq> k" by (auto simp: image_iff)
    then have "spec_candidates mf xs now k = []" by (rule candidates_absent)
    with True show ?thesis by (simp add: candidates_Cons)
  next
    case False
    with Cons show ?thesis by (simp add: candidates_Cons)
  qed
qed

lemma fajr_Nil: "spec_fajr mf [] = []"
  by (simp add: spec_fajr_def)

lemma fajr_Cons:
  "spec_fajr mf (x # xs) =
     (if prayer x = Fajr then (case mf x of None \<Rightarrow> [] | Some m \<Rightarrow> [m]) else []) @ spec_fajr mf xs"
  by (simp add: spec_fajr_def split: option.splits)

lemma fajr_absent:
  "\<forall>r \<in> set rows. prayer r \<noteq> Fajr \<Longrightarrow> spec_fajr mf rows = []"
  by (induction rows) (simp_all add: fajr_Nil fajr_Cons)

lemma fajr_find:
  "distinct (map prayer rows) \<Longrightarrow>
   spec_fajr mf rows =
     (case find (\<lambda>r. prayer r = Fajr) rows of
        None \<Rightarrow> []
      | Some r \<Rightarrow> (case mf r of None \<Rightarrow> [] | Some m \<Rightarrow> [m]))"
proof (induction rows)
  case Nil
  show ?case by (simp add: fajr_Nil)
next
  case (Cons x xs)
  show ?case
  proof (cases "prayer x = Fajr")
    case True
    with Cons.prems have "\<forall>r \<in> set xs. prayer r \<noteq> Fajr" by (auto simp: image_iff)
    then have "spec_fajr mf xs = []" by (rule fajr_absent)
    with True show ?thesis by (simp add: fajr_Cons)
  next
    case False
    with Cons show ?thesis by (simp add: fajr_Cons)
  qed
qed

lemma first_of_append: "first_of (xs @ ys) = (case first_of xs of None \<Rightarrow> first_of ys | Some a \<Rightarrow> Some a)"
  by (cases xs) (auto simp: first_of_def)

lemma scanPrayers_spec:
  "distinct (map prayer rows) \<Longrightarrow>
   scanPrayers rows now keys =
     first_of (concat (map (spec_candidates (\<lambda>r. timeToMinutes (Some (jamaat_time r))) rows now) keys))"
proof (induction keys)
  case Nil
  show ?case by (simp add: first_of_def)
next
  case (Cons k ks)
  then show ?case
    by (simp add: first_of_append candidates_find first_of_def split: option.splits)
qed

lemma scanPrayers_legacy_spec:
  "distinct (map prayer rows) \<Longrightarrow>
   scanPrayers_legacy rows now keys =
     first_of (concat (map (spec_candidates (\<lambda>r. Some (legacy_minutes (jamaat_time r))) rows now) keys))"
proof (induction keys)
  case Nil
  show ?case by (simp add: first_of_def)
next
  case (Cons k ks)
  then show ?case
    by (simp add: first_of_append candidates_find first_of_def Let_def split: option.splits)
qed

lemma first_next_append: "first_next now (xs @ ys) = (case first_next now xs of None \<Rightarrow> first_next now ys | Some a \<Rightarrow> Some a)"
  by (cases xs) (auto simp: first_next_def)

lemma scanPrayers_aurora_spec:
  "distinct (map prayer rows) \<Longrightarrow>
   scanPrayers_aurora rows now keys =
     first_next now (concat (map (spec_candidates (\<lambda>r. timeToMins (Some (jamaat_time r))) rows now) keys))"
proof (induction keys)
  case Nil
  show ?case by (simp add: first_next_def)
next
  case (Cons k ks)
  then show ?case
    by (simp add: first_next_append candidates_find first_next_def split: option.splits)
qed

lemma spec_nextPrayer_first:
  "spec_nextPrayer mf rows now =
     (case first_of (spec_upcoming mf rows now) of
        Some x \<Rightarrow> Some x
      | None \<Rightarrow> (case spec_fajr mf rows of m # rest \<Rightarrow> Some (Fajr, m) | [] \<Rightarrow> None))"
  by (cases "spec_upcoming mf rows now") (auto simp: spec_nextPrayer_def first_of_def)

lemma upcoming_order:
  "spec_upcoming mf rows now = concat (map (spec_candidates mf rows now) PRAYER_ORDER)"
  by (simp add: spec_upcoming_def PRAYER_ORDER_def)

lemma computeNextPrayer_spec:
  assumes "nowInTimeZone fmt tz = Inr n"
      and "distinct (map prayer (filter (\<lambda>p. date p = ymdFromClock n) prayers))"
  shows "computeNextPrayer fmt prayers tz =
           Inr (spec_nextPrayer (\<lambda>r. timeToMinutes (Some (jamaat_time r)))
                  (filter (\<lambda>p. date p = ymdFromClock n) prayers)
                  (js_add (js_mul (hour n) (Num 60)) (minute n)))"
proof -
  let ?rows = "filter (\<lambda>p. date p = ymdFromClock n) prayers"
  let ?now = "js_add (js_mul (hour n) (Num 60)) (minute n)"
  let ?mf = "\<lambda>r. timeToMinutes (Some (jamaat_time r))"
  have scan: "scanPrayers ?rows ?now PRAYER_ORDER = first_of (spec_upcoming ?mf ?rows ?now)"
    unfolding upcoming_order by (rule scanPrayers_spec [OF assms(2)])
  have fj: "spec_fajr ?mf ?rows =
     (case find (\<lambda>r. prayer r = Fajr) ?rows of
        None \<Rightarrow> []
      | Some r \<Rightarrow> (case ?mf r of None \<Rightarrow> [] | Some m \<Rightarrow> [m]))"
    by (rule fajr_find [OF assms(2)])
  have "computeNextPrayer fmt prayers tz =
      Inr (case scanPrayers ?rows ?now PRAYER_ORDER of
             Some r \<Rightarrow> Some r
           | None \<Rightarrow>
               (case find (\<lambda>r. prayer r = Fajr) ?rows of
                  None \<Rightarrow> None
                | Some first \<Rightarrow>
                    (case timeToMinutes (Some (jamaat_time first)) of
                       None \<Rightarrow> None
                     | Some ms \<Rightarrow> Some (Fajr, ms))))"
    using assms(1) by (simp add: computeNextPrayer_def Let_def)
  also have "\<dots> = Inr (spec_nextPrayer ?mf ?rows ?now)"
    unfolding spec_nextPrayer_first scan fj
    by (simp split: option.splits)
  finally show ?thesis .
qed


lemma computeNextPrayer_legacy_spec:
  assumes "nowInTimeZone fmt tz = Inr n"
      and "distinct (map prayer (filter (\<lambda>p. date p = ymdFromClock n) prayers))"
  shows "computeNextPrayer_legacy fmt prayers tz =
           Inr (spec_nextPrayer (\<lambda>r. Some (legacy_minutes (jamaat_time r)))
                  (filter (\<lambda>p. date p = ymdFromClock n) prayers)
                  (js_add (js_mul (hour n) (Num 60)) (minute n)))"
proof -
  let ?rows = "filter (\<lambda>p. date p = ymdFromClock n) prayers"
  let ?now = "js_add (js_mul (hour n) (Num 60)) (minute n)"
  let ?mf = "\<lambda>r. Some (legacy_minutes (jamaat_time r))"
  have scan: "scanPrayers_legacy ?rows ?now PRAYER_ORDER = first_of (spec_upcoming ?mf ?rows ?now)"
    unfolding upcoming_order by (rule scanPrayers_legacy_spec [OF assms(2)])
  have fj: "spec_fajr ?mf ?rows =
     (case find (\<lambda>r. prayer r = Fajr) ?rows of
        None \<Rightarrow> []
      | Some r \<Rightarrow> (case ?mf r of None \<Rightarrow> [] | Some m \<Rightarrow> [m]))"
    by (rule fajr_find [OF assms(2)])
  have "computeNextPrayer_legacy fmt prayers tz =
      Inr (case scanPrayers_legacy ?rows ?now PRAYER_ORDER of
             Some r \<Rightarrow> Some r
           | None \<Rightarrow>
               (case find (\<lambda>r. prayer r = Fajr) ?rows of
                  None \<Rightarrow> None
                | Some first \<Rightarrow> Some (Fajr, legacy_minutes (jamaat_time first))))"
    using assms(1) by (simp add: computeNextPrayer_legacy_def ymdFromClock_def Let_def cong: option.case_cong)
  also have "\<dots> = Inr (spec_nextPrayer ?mf ?rows ?now)"
    unfolding spec_nextPrayer_first scan fj
    by (simp split: option.splits)
  finally show ?thesis .
qed

lemma getNextPrayer_spec:
  assumes "nowInTz fmt tz = Inr n"
      and "distinct (map prayer (filter (\<lambda>p. date p = ymd n) prayers))"
  shows "getNextPrayer fmt prayers tz =
           Inr (first_next (js_add (js_mul (hour n) (Num 60)) (minute n))
                  (spec_upcoming (\<lambda>r. timeToMins (Some (jamaat_time r)))
                     (filter (\<lambda>p. date p = ymd n) prayers)
                     (js_add (js_mul (hour n) (Num 60)) (minute n))))"
proof -
  let ?rows = "filter (\<lambda>p. date p = ymd n) prayers"
  let ?now = "js_add (js_mul (hour n) (Num 60)) (minute n)"
  let ?mf = "\<lambda>r. timeToMins (Some (jamaat_time r))"
  have scan: "scanPrayers_aurora ?rows ?now PRAYER_ORDER = first_next ?now (spec_upcoming ?mf ?rows ?now)"
    unfolding upcoming_order by (rule scanPrayers_aurora_spec [OF assms(2)])
  have "getNextPrayer fmt prayers tz = Inr (scanPrayers_aurora ?rows ?now PRAYER_ORDER)"
    using assms(1) by (simp add: getNextPrayer_def Let_def)
  then show ?thesis by (simp only: scan)
qed

text \<open>
  C1 (as amended). With one row per prayer among today's rows, the dashboard client
  and the legacy board return the first prayer, in the order fajr, dhuhr, asr, maghrib,
  isha, that has a row today whose jamaat minutes are at or after the current minute,
  and otherwise fajr's row with today's fajr minutes, and nothing when fajr has no row
  (in the dashboard client also when its time gives no minute value). The Aurora client
  returns the same first prayer, with its row and the difference to now, and nothing
  when every prayer of today has passed: it has no fallback to fajr.
\<close>

theorem next_prayer_scan:
  assumes "nowInTimeZone fmt tz = Inr n"
      and "nowInTz fmtA tz = Inr nA"
      and "distinct (map prayer (filter (\<lambda>p. date p = ymdFromClock n) prayers))"
      and "distinct (map prayer (filter (\<lambda>p. date p = ymd nA) prayers))"
  shows "computeNextPrayer fmt prayers tz =
           Inr (spec_nextPrayer (\<lambda>r. timeToMinutes (Some (jamaat_time r)))
                  (filter (\<lambda>p. date p = ymdFromClock n) prayers)
                  (js_add (js_mul (hour n) (Num 60)) (minute n)))
       \<and> computeNextPrayer_legacy fmt prayers tz =
           Inr (spec_nextPrayer (\<lambda>r. Some (legacy_minutes (jamaat_time r)))
                  (filter (\<lambda>p. date p = ymdFromClock n) prayers)
                  (js_add (js_mul (hour n) (Num 60)) (minute n)))
       \<and> getNextPrayer fmtA prayers tz =
           Inr (first_next (js_add (js_mul (hour nA) (Num 60)) (minute nA))
                  (spec_upcoming (\<lambda>r. timeToMins (Some (jamaat_time r)))
                     (filter (\<lambda>p. date p = ymd nA) prayers)
                     (js_add (js_mul (hour nA) (Num 60)) (minute nA))))"
  using computeNextPrayer_spec [OF assms(1,3)] computeNextPrayer_legacy_spec [OF assms(1,3)]
    getNextPrayer_spec [OF assms(2,4)]
  by (intro conjI)

lemmas number_eval = js_Number_def trim_def isWhite_def isDigit_def natOfDigits_def digitVal_def
  numeric_literal_def decimal_literal_def radix_literal_def exponent_part_def radixVal_def
  natOfRadix_def
lemmas string_eval = two_def padStart2_def decDigits.simps digitChar_def
lemmas clock_eval = nowInTimeZone_def nowInTz_def tz_or_default_def get_part_def rome_at_def gb_parts_def
  clock_at_def ymdFromClock_def ymd_def
lemmas minutes_eval = timeToMinutes_def timeToMins_def legacy_minutes_def time_fields_def at_index_def
lemmas sample_eval = sample_rows_def sample_row_def

lemma rome_2100: "nowInTimeZone (rome_at ''21'' ''00'') None = Inr (clock_at 21 0)"
  by (simp add: clock_eval number_eval)

lemma rome_2100_aurora: "nowInTz (rome_at ''21'' ''00'') None = Inr (clock_at 21 0)"
  by (simp add: clock_eval number_eval)

lemma today_2100: "ymdFromClock (clock_at h mi) = ''2026-11-02''" "ymd (clock_at h mi) = ''2026-11-02''"
  by (simp_all add: clock_eval string_eval)

lemma sample_today: "filter (\<lambda>p. date p = ''2026-11-02'') sample_rows = sample_rows"
  by (simp add: sample_eval)

lemma sample_minutes:
  "timeToMinutes (Some ''05:20:00'') = Some (Num 320)"
  "timeToMinutes (Some ''13:15:00'') = Some (Num 795)"
  "timeToMinutes (Some ''16:20:00'') = Some (Num 980)"
  "timeToMinutes (Some ''19:05:00'') = Some (Num 1145)"
  "timeToMinutes (Some ''20:45:00'') = Some (Num 1245)"
  by (simp_all add: minutes_eval number_eval Let_def)

lemma sample_mins:
  "timeToMins (Some ''05:20:00'') = Some (Num 320)"
  "timeToMins (Some ''13:15:00'') = Some (Num 795)"
  "timeToMins (Some ''16:20:00'') = Some (Num 980)"
  "timeToMins (Some ''19:05:00'') = Some (Num 1145)"
  "timeToMins (Some ''20:45:00'') = Some (Num 1245)"
  by (simp_all add: minutes_eval number_eval Let_def)

lemma sample_legacy_minutes:
  "legacy_minutes ''05:20:00'' = Num 320"
  "legacy_minutes ''13:15:00'' = Num 795"
  "legacy_minutes ''16:20:00'' = Num 980"
  "legacy_minutes ''19:05:00'' = Num 1145"
  "legacy_minutes ''20:45:00'' = Num 1245"
  by (simp_all add: minutes_eval number_eval Let_def)

lemma sample_distinct: "distinct (map prayer sample_rows)"
  by (simp add: sample_eval)

lemmas spec_eval = spec_nextPrayer_def spec_upcoming_def spec_candidates_def spec_fajr_def first_next_def

theorem next_prayer_scan_witness:
  "computeNextPrayer (rome_at ''21'' ''00'') sample_rows None = Inr (Some (Fajr, Num 320))
   \<and> computeNextPrayer_legacy (rome_at ''21'' ''00'') sample_rows None = Inr (Some (Fajr, Num 320))
   \<and> getNextPrayer (rome_at ''21'' ''00'') sample_rows None = Inr None"
proof -
  have now: "js_add (js_mul (hour (clock_at 21 0)) (Num 60)) (minute (clock_at 21 0)) = Num 1260"
    by (simp add: clock_at_def)
  have s1: "spec_nextPrayer (\<lambda>r. timeToMinutes (Some (jamaat_time r))) sample_rows (Num 1260)
            = Some (Fajr, Num 320)"
    by (simp add: spec_eval sample_eval sample_minutes)
  have s2: "spec_nextPrayer (\<lambda>r. Some (legacy_minutes (jamaat_time r))) sample_rows (Num 1260)
            = Some (Fajr, Num 320)"
    by (simp add: spec_eval sample_eval sample_legacy_minutes)
  have s3: "first_next (Num 1260)
              (spec_upcoming (\<lambda>r. timeToMins (Some (jamaat_time r))) sample_rows (Num 1260))
            = None"
    by (simp add: spec_eval sample_eval sample_mins)
  have d1: "distinct (map prayer (filter (\<lambda>p. date p = ymdFromClock (clock_at 21 0)) sample_rows))"
    by (simp only: today_2100 sample_today sample_distinct)
  have d2: "distinct (map prayer (filter (\<lambda>p. date p = ymd (clock_at 21 0)) sample_rows))"
    by (simp only: today_2100 sample_today sample_distinct)
  from next_prayer_scan [OF rome_2100 rome_2100_aurora d1 d2]
  show ?thesis unfolding today_2100 sample_today now s1 s2 s3 .
qed

text \<open>
  At 21:00, after isha, the Aurora client returns nothing although fajr has a row: the
  claim as stated (fall back to fajr) fails for it.
\<close>

lemma scan_aurora_sample: "scanPrayers_aurora sample_rows (Num 1260) PRAYER_ORDER = None"
  by (simp add: PRAYER_ORDER_def sample_eval sample_mins)

theorem aurora_no_fallback_counterexample:
  "getNextPrayer (rome_at ''21'' ''00'') sample_rows None = Inr None
   \<and> spec_nextPrayer (\<lambda>r. timeToMins (Some (jamaat_time r))) sample_rows (Num 1260)
       = Some (Fajr, Num 320)"
proof -
  have now: "js_add (js_mul (hour (clock_at 21 0)) (Num 60)) (minute (clock_at 21 0)) = Num 1260"
    by (simp add: clock_at_def)
  have "getNextPrayer (rome_at ''21'' ''00'') sample_rows None =
      Inr (scanPrayers_aurora (filter (\<lambda>p. date p = ymd (clock_at 21 0)) sample_rows)
             (js_add (js_mul (hour (clock_at 21 0)) (Num 60)) (minute (clock_at 21 0))) PRAYER_ORDER)"
    by (simp add: getNextPrayer_def rome_2100_aurora Let_def)
  then have "getNextPrayer (rome_at ''21'' ''00'') sample_rows None = Inr None"
    by (simp only: today_2100 sample_today now scan_aurora_sample)
  moreover have "spec_nextPrayer (\<lambda>r. timeToMins (Some (jamaat_time r))) sample_rows (Num 1260)
       = Some (Fajr, Num 320)"
    by (simp add: spec_eval sample_eval sample_mins)
  ultimately show ?thesis by simp
qed

section \<open>Next prayer depends on today's rows only\<close>

lemma filter_today_idem: "filter P (filter P xs) = filter P xs"
  by (induction xs) simp_all

text \<open>
  C9. In each of the three clients the next prayer of a row list equals the next
  prayer of the rows whose date is today's date key in the time zone: rows of any
  other date never change the result.
\<close>

theorem next_prayer_today_only:
  assumes "nowInTimeZone fmt tz = Inr n" and "nowInTz fmtA tz = Inr nA"
  shows "computeNextPrayer fmt (filter (\<lambda>p. date p = ymdFromClock n) prayers) tz
           = computeNextPrayer fmt prayers tz
       \<and> computeNextPrayer_legacy fmt (filter (\<lambda>p. date p = ymdFromClock n) prayers) tz
           = computeNextPrayer_legacy fmt prayers tz
       \<and> getNextPrayer fmtA (filter (\<lambda>p. date p = ymd nA) prayers) tz
           = getNextPrayer fmtA prayers tz"
proof (intro conjI)
  show "computeNextPrayer fmt (filter (\<lambda>p. date p = ymdFromClock n) prayers) tz
           = computeNextPrayer fmt prayers tz"
    using assms(1) by (simp add: computeNextPrayer_def Let_def cong: option.case_cong)
  show "computeNextPrayer_legacy fmt (filter (\<lambda>p. date p = ymdFromClock n) prayers) tz
           = computeNextPrayer_legacy fmt prayers tz"
    using assms(1)
    by (simp add: computeNextPrayer_legacy_def ymdFromClock_def Let_def filter_today_idem cong: option.case_cong)
  show "getNextPrayer fmtA (filter (\<lambda>p. date p = ymd nA) prayers) tz
           = getNextPrayer fmtA prayers tz"
    using assms(2) by (simp add: getNextPrayer_def Let_def filter_today_idem)
qed



theorem next_prayer_today_only_witness:
  "computeNextPrayer (rome_at ''21'' ''00'') sample_rows None
     = computeNextPrayer (rome_at ''21'' ''00'') (stale_row # sample_rows) None
   \<and> computeNextPrayer_legacy (rome_at ''21'' ''00'') sample_rows None
     = computeNextPrayer_legacy (rome_at ''21'' ''00'') (stale_row # sample_rows) None
   \<and> getNextPrayer (rome_at ''21'' ''00'') sample_rows None
     = getNextPrayer (rome_at ''21'' ''00'') (stale_row # sample_rows) None"
proof -
  have f: "filter (\<lambda>p. date p = ''2026-11-02'') (stale_row # sample_rows) = sample_rows"
    by (simp add: stale_row_def sample_today)
  from next_prayer_today_only [OF rome_2100 rome_2100_aurora, of "stale_row # sample_rows"]
  show ?thesis unfolding today_2100 f .
qed

section \<open>A time string with a missing field\<close>

lemma split_on_absent: "c \<notin> set s \<Longrightarrow> split_on c s = [s]"
  by (induction s) auto

lemma time_fields_single:
  "CHR '':'' \<notin> set (take 5 t) \<Longrightarrow> at_index (time_fields t) (Suc 0) = None"
  by (simp add: time_fields_def split_on_absent at_index_def)

lemma legacy_minutes_missing: "CHR '':'' \<notin> set (take 5 t) \<Longrightarrow> legacy_minutes t = NaN"
  by (cases "toNumber (at_index (time_fields t) 0)") (simp_all add: legacy_minutes_def time_fields_single Let_def)

lemma timeToMinutes_missing: "CHR '':'' \<notin> set (take 5 t) \<Longrightarrow> timeToMinutes (Some t) = None"
  by (simp add: timeToMinutes_def time_fields_single Let_def)

lemma timeToMins_missing: "CHR '':'' \<notin> set (take 5 t) \<Longrightarrow> timeToMins (Some t) = None"
  by (simp add: timeToMins_def time_fields_single Let_def)

text \<open>
  The checked helpers never give \<^verbatim>\<open>NaN\<close>: a time without two finite fields
  has no minute value, so no result of the dashboard client or of the Aurora client
  carries \<^verbatim>\<open>NaN\<close> minutes.
\<close>

lemma timeToMinutes_finite: "timeToMinutes t = Some m \<Longrightarrow> m \<noteq> NaN"
  by (auto simp: timeToMinutes_def Let_def split: option.splits if_splits
      elim!: isFinite.elims)

lemma timeToMins_finite: "timeToMins t = Some m \<Longrightarrow> m \<noteq> NaN"
  by (auto simp: timeToMins_def Let_def split: option.splits if_splits
      elim!: isFinite.elims)

lemma scanPrayers_finite: "scanPrayers rows now keys = Some (k, m) \<Longrightarrow> m \<noteq> NaN"
  by (induction keys) (auto split: option.splits if_splits dest: timeToMinutes_finite)

lemma computeNextPrayer_finite:
  "computeNextPrayer fmt prayers tz = Inr (Some (k, m)) \<Longrightarrow> m \<noteq> NaN"
  by (auto simp: computeNextPrayer_def Let_def split: sum.splits option.splits
      dest: scanPrayers_finite timeToMinutes_finite)

lemma scanPrayers_aurora_finite: "scanPrayers_aurora rows now keys = Some nx \<Longrightarrow> mins nx \<noteq> NaN"
  by (induction keys) (auto split: option.splits if_splits dest: timeToMins_finite)

lemma getNextPrayer_finite:
  "getNextPrayer fmt prayers tz = Inr (Some nx) \<Longrightarrow> mins nx \<noteq> NaN"
  by (auto simp: getNextPrayer_def Let_def split: sum.splits dest: scanPrayers_aurora_finite)

text \<open>
  C7. A fajr row of today whose time has no minutes field (no colon in its first five
  characters) is skipped by the dashboard and the Aurora clients, which return nothing,
  while the legacy board returns fajr with the minute value \<^verbatim>\<open>NaN\<close>: its
  fallback computes \<^verbatim>\<open>hh * 60 + mm\<close> with \<^verbatim>\<open>mm\<close> undefined and does not
  check the result, and its countdown then reads \<^verbatim>\<open>NaNh NaNm\<close>.
\<close>

theorem legacy_missing_minutes:
  assumes "nowInTimeZone fmt tz = Inr n"
      and "prayer r = Fajr"
      and "date r = ymdFromClock n"
      and "CHR '':'' \<notin> set (take 5 (jamaat_time r))"
  shows "computeNextPrayer_legacy fmt [r] tz = Inr (Some (Fajr, NaN))
       \<and> countdown fmt (Some (Fajr, NaN)) tz = Inr ''NaNh NaNm''
       \<and> computeNextPrayer fmt [r] tz = Inr None
       \<and> getNextPrayer fmt [r] tz = Inr None"
proof (intro conjI)
  show "countdown fmt (Some (Fajr, NaN)) tz = Inr ''NaNh NaNm''"
    using assms(1) by (simp add: countdown_def Let_def)
  have leg: "legacy_minutes (jamaat_time r) = NaN"
    by (rule legacy_minutes_missing [OF assms(4)])
  have t: "js_String (year n) @ ''-'' @ two (month n) @ ''-'' @ two (day n) = date r"
    using assms(3) by (simp add: ymdFromClock_def)
  show "computeNextPrayer_legacy fmt [r] tz = Inr (Some (Fajr, NaN))"
    using assms(1,2) t leg
    by (simp add: computeNextPrayer_legacy_def PRAYER_ORDER_def Let_def)
  show "computeNextPrayer fmt [r] tz = Inr None"
    using assms(1,2,3) timeToMinutes_missing [OF assms(4)]
    by (simp add: computeNextPrayer_def PRAYER_ORDER_def Let_def)
  have "nowInTz fmt tz = Inr n" using assms(1) by (simp add: nowInTz_def nowInTimeZone_def)
  moreover have "ymd n = date r" using assms(3) by (simp add: ymd_def ymdFromClock_def)
  ultimately show "getNextPrayer fmt [r] tz = Inr None"
    using assms(2) timeToMins_missing [OF assms(4)]
    by (simp add: getNextPrayer_def PRAYER_ORDER_def Let_def)
qed

theorem legacy_missing_minutes_witness:
  "computeNextPrayer_legacy (rome_at ''21'' ''00'') [short_fajr] None = Inr (Some (Fajr, NaN))
   \<and> countdown (rome_at ''21'' ''00'') (Some (Fajr, NaN)) None = Inr ''NaNh NaNm''
   \<and> computeNextPrayer (rome_at ''21'' ''00'') [short_fajr] None = Inr None
   \<and> getNextPrayer (rome_at ''21'' ''00'') [short_fajr] None = Inr None"
proof -
  have a: "prayer short_fajr = Fajr" by (simp add: short_fajr_def)
  have b: "date short_fajr = ymdFromClock (clock_at 21 0)" by (simp add: short_fajr_def today_2100)
  have c: "CHR '':'' \<notin> set (take 5 (jamaat_time short_fajr))" by (simp add: short_fajr_def)
  show ?thesis by (rule legacy_missing_minutes [OF rome_2100 a b c])
qed

section \<open>The local clock and its default zone\<close>

text \<open>
  C8 (as amended). An absent time zone (\<^verbatim>\<open>null\<close> or the empty string) is read as
  \<^verbatim>\<open>Europe/Rome\<close>. Every other identifier is handed to the platform's formatter
  unchanged: when the formatter accepts it, the breakdown holds the numbers of the
  formatter's year, month, day, hour, minute and second parts, its weekday text and
  the identifier; when the formatter rejects it, its \<^verbatim>\<open>RangeError\<close> is the result
  and there is no fallback to the default zone. The Aurora client's copy agrees.
\<close>

theorem localClock_default:
  "nowInTimeZone fmt None = nowInTimeZone fmt (Some ''Europe/Rome'')
   \<and> nowInTimeZone fmt (Some []) = nowInTimeZone fmt (Some ''Europe/Rome'')
   \<and> (s \<noteq> [] \<longrightarrow> fmt s = None \<longrightarrow> nowInTimeZone fmt (Some s) = Inl RangeError)
   \<and> (s \<noteq> [] \<longrightarrow> fmt s = Some parts \<longrightarrow>
        nowInTimeZone fmt (Some s) =
          Inr \<lparr> year = js_Number (get_part parts ''year''),
                month = js_Number (get_part parts ''month''),
                day = js_Number (get_part parts ''day''),
                hour = js_Number (get_part parts ''hour''),
                minute = js_Number (get_part parts ''minute''),
                second = js_Number (get_part parts ''second''),
                weekday = get_part parts ''weekday'',
                timeZone = s \<rparr>)
   \<and> nowInTz fmt tz = nowInTimeZone fmt tz"
  by (simp add: nowInTimeZone_def nowInTz_def tz_or_default_def)

theorem localClock_default_witness:
  "nowInTimeZone (rome_at ''21'' ''00'') (Some ''Mars/Phobos'') = Inl RangeError
   \<and> nowInTimeZone (rome_at ''21'' ''00'') (Some ''Europe/Rome'') = Inr (clock_at 21 0)
   \<and> nowInTimeZone (rome_at ''21'' ''00'') None = Inr (clock_at 21 0)"
proof -
  have a: "''Mars/Phobos'' \<noteq> []" "rome_at ''21'' ''00'' ''Mars/Phobos'' = None"
    by (simp_all add: rome_at_def)
  have b: "''Europe/Rome'' \<noteq> []" "rome_at ''21'' ''00'' ''Europe/Rome'' = Some (gb_parts ''21'' ''00'')"
    by (simp_all add: rome_at_def)
  have c: "\<lparr> year = js_Number (get_part (gb_parts ''21'' ''00'') ''year''),
                month = js_Number (get_part (gb_parts ''21'' ''00'') ''month''),
                day = js_Number (get_part (gb_parts ''21'' ''00'') ''day''),
                hour = js_Number (get_part (gb_parts ''21'' ''00'') ''hour''),
                minute = js_Number (get_part (gb_parts ''21'' ''00'') ''minute''),
                second = js_Number (get_part (gb_parts ''21'' ''00'') ''second''),
                weekday = get_part (gb_parts ''21'' ''00'') ''weekday'',
                timeZone = ''Europe/Rome'' \<rparr> = clock_at 21 0"
    by (simp add: clock_eval number_eval)
  from localClock_default [of "rome_at ''21'' ''00''" "''Mars/Phobos''"] a
  have 1: "nowInTimeZone (rome_at ''21'' ''00'') (Some ''Mars/Phobos'') = Inl RangeError"
    by blast
  from localClock_default [of "rome_at ''21'' ''00''" "''Europe/Rome''" "gb_parts ''21'' ''00''"] b
  have 2: "nowInTimeZone (rome_at ''21'' ''00'') (Some ''Europe/Rome'') = Inr (clock_at 21 0)"
    unfolding c by blast
  from localClock_default [of "rome_at ''21'' ''00''"] 2
  have 3: "nowInTimeZone (rome_at ''21'' ''00'') None = Inr (clock_at 21 0)"
    by simp
  from 1 2 3 show ?thesis by simp
qed

text \<open>
  An identifier the platform does not know fails, in both copies, although the default
  zone is available.
\<close>

theorem invalid_zone_counterexample:
  "nowInTimeZone (rome_at ''21'' ''00'') (Some ''Mars/Phobos'') = Inl RangeError
   \<and> nowInTz (rome_at ''21'' ''00'') (Some ''Mars/Phobos'') = Inl RangeError
   \<and> nowInTimeZone (rome_at ''21'' ''00'') (Some ''Europe/Rome'') = Inr (clock_at 21 0)"
  by (simp add: clock_eval number_eval)

section \<open>Countdown\<close>

lemma js_rem_nonneg: "0 \<le> d \<Longrightarrow> js_rem (Num d) 60 = Num (d mod 60)"
  by (cases "d = 0") simp_all

lemma countdown_nonneg:
  assumes "nowInTimeZone fmt tz = Inr n" and "hour n = Num h" and "minute n = Num mi"
      and "0 \<le> spec_countdown_minutes m (h * 60 + mi)"
  shows "countdown fmt (Some (k, Num m)) tz = Inr (spec_format (spec_countdown_minutes m (h * 60 + mi)))"
proof -
  let ?d = "spec_countdown_minutes m (h * 60 + mi)"
  have d: "(if js_lt (js_sub (Num m) (Num (h * 60 + mi))) (Num 0)
            then js_add (js_sub (Num m) (Num (h * 60 + mi))) (Num (24 * 60))
            else js_sub (Num m) (Num (h * 60 + mi))) = Num ?d"
    by (simp add: spec_countdown_minutes_def)
  have c: "countdown fmt (Some (k, Num m)) tz =
            (if js_le (js_floor_div (Num ?d) 60) (Num 0) then Inr (js_String (js_rem (Num ?d) 60) @ '' min'')
             else Inr (js_String (js_floor_div (Num ?d) 60) @ ''h '' @ js_String (js_rem (Num ?d) 60) @ ''m''))"
    using assms(1,2,3) d by (simp add: countdown_def Let_def)
  have small: "?d div 60 \<le> 0 \<longleftrightarrow> ?d < 60" using assms(4) by auto
  show ?thesis
    unfolding c using assms(4) small
    by (simp add: js_rem_nonneg spec_format_def del: js_rem.simps)
qed

lemma formatCountdown_eq:
  "formatCountdown (Num d) =
     (if d < 60 then js_String (Num d) @ '' min''
      else if d mod 60 = 0 then js_String (Num (d div 60)) @ ''h''
      else js_String (Num (d div 60)) @ ''h '' @ js_String (Num (d mod 60)) @ ''m'')"
proof (cases "d < 60")
  case True
  then show ?thesis by (simp add: formatCountdown_def)
next
  case False
  then have "0 \<le> d" by simp
  then have r: "js_rem (Num d) 60 = Num (d mod 60)" by (rule js_rem_nonneg)
  from False show ?thesis
    by (simp add: formatCountdown_def Let_def r del: js_rem.simps)
qed

lemma scanPrayers_aurora_diff:
  "scanPrayers_aurora rows now keys = Some nx \<Longrightarrow> diff nx = js_sub (mins nx) now \<and> js_ge (mins nx) now"
  by (induction keys) (auto split: option.splits if_splits)

lemma getNextPrayer_diff:
  assumes "nowInTz fmt tz = Inr n" and "getNextPrayer fmt prayers tz = Inr (Some nx)"
  shows "diff nx = js_sub (mins nx) (js_add (js_mul (hour n) (Num 60)) (minute n))
       \<and> js_ge (mins nx) (js_add (js_mul (hour n) (Num 60)) (minute n))"
  using assms by (simp add: getNextPrayer_def Let_def scanPrayers_aurora_diff)

text \<open>
  C2 (as amended). In the dashboard client and the legacy board, for a next prayer at
  minute \<open>m \<ge> 0\<close> and a clock before 24:00, the countdown is \<open>m\<close> minus the
  current minute, 1440 added when that is negative, shown as \<^verbatim>\<open>{minutes} min\<close>
  under one hour and as \<^verbatim>\<open>{hours}h {minutes}m\<close> otherwise. In the Aurora client
  the countdown is the difference stored with the next prayer, minutes minus now,
  which is never negative and gets no day added; it is shown as \<^verbatim>\<open>{minutes} min\<close>
  under one hour, as \<^verbatim>\<open>{hours}h\<close> for whole hours and as
  \<^verbatim>\<open>{hours}h {minutes}m\<close> otherwise.
\<close>

theorem countdown_format:
  assumes "nowInTimeZone fmt tz = Inr n" and "hour n = Num h" and "minute n = Num mi"
      and "0 \<le> m" and "h * 60 + mi < 1440"
      and "nowInTz fmtA tz = Inr nA" and "getNextPrayer fmtA prayers tz = Inr (Some nx)"
  shows "countdown fmt (Some (k, Num m)) tz
           = Inr (spec_format (spec_countdown_minutes m (h * 60 + mi)))
       \<and> diff nx = js_sub (mins nx) (js_add (js_mul (hour nA) (Num 60)) (minute nA))
       \<and> js_ge (mins nx) (js_add (js_mul (hour nA) (Num 60)) (minute nA))
       \<and> formatCountdown (Num d) =
           (if d < 60 then js_String (Num d) @ '' min''
            else if d mod 60 = 0 then js_String (Num (d div 60)) @ ''h''
            else js_String (Num (d div 60)) @ ''h '' @ js_String (Num (d mod 60)) @ ''m'')"
proof -
  have "0 \<le> spec_countdown_minutes m (h * 60 + mi)"
    using assms(4,5) by (simp add: spec_countdown_minutes_def)
  from countdown_nonneg [OF assms(1,2,3) this] getNextPrayer_diff [OF assms(6,7)] formatCountdown_eq [of d]
  show ?thesis by simp
qed

lemma rome_0800: "nowInTz (rome_at ''08'' ''00'') None = Inr (clock_at 8 0)"
  by (simp add: clock_eval number_eval)

lemma scan_0800:
  "scanPrayers_aurora sample_rows (Num 480) PRAYER_ORDER =
     Some \<lparr> key = Dhuhr, row = sample_row Dhuhr ''13:00:00'' ''13:15:00'', mins = Num 795, diff = Num 315 \<rparr>"
  by (simp add: PRAYER_ORDER_def sample_eval sample_mins)

lemma getNextPrayer_0800:
  "getNextPrayer (rome_at ''08'' ''00'') sample_rows None =
     Inr (Some \<lparr> key = Dhuhr, row = sample_row Dhuhr ''13:00:00'' ''13:15:00'', mins = Num 795, diff = Num 315 \<rparr>)"
proof -
  have now: "js_add (js_mul (hour (clock_at 8 0)) (Num 60)) (minute (clock_at 8 0)) = Num 480"
    by (simp add: clock_at_def)
  have "getNextPrayer (rome_at ''08'' ''00'') sample_rows None =
      Inr (scanPrayers_aurora (filter (\<lambda>p. date p = ymd (clock_at 8 0)) sample_rows)
             (js_add (js_mul (hour (clock_at 8 0)) (Num 60)) (minute (clock_at 8 0))) PRAYER_ORDER)"
    by (simp add: getNextPrayer_def rome_0800 Let_def)
  then show ?thesis
    by (simp only: today_2100 sample_today now scan_0800)
qed

theorem countdown_format_witness:
  "countdown (rome_at ''21'' ''00'') (Some (Fajr, Num 300)) None = Inr ''8h 0m''
   \<and> formatCountdown (Num 315) = ''5h 15m''
   \<and> formatCountdown (Num 45) = ''45 min''"
proof -
  have h: "hour (clock_at 21 0) = Num 21" "minute (clock_at 21 0) = Num 0"
    by (simp_all add: clock_at_def)
  have r: "(0::int) \<le> 300" "(21::int) * 60 + 0 < 1440" by simp_all
  have s: "spec_format (spec_countdown_minutes 300 (21 * 60 + 0)) = ''8h 0m''"
    by (simp add: spec_format_def spec_countdown_minutes_def string_eval)
  from countdown_format [OF rome_2100 h r rome_0800 getNextPrayer_0800, of Fajr 315]
  have 1: "countdown (rome_at ''21'' ''00'') (Some (Fajr, Num 300)) None = Inr ''8h 0m''"
    and 2: "formatCountdown (Num 315) = ''5h 15m''"
    unfolding s by (simp_all add: string_eval clock_at_def)
  from countdown_format [OF rome_2100 h r rome_0800 getNextPrayer_0800, of Fajr 45]
  have 3: "formatCountdown (Num 45) = ''45 min''"
    by (simp add: string_eval clock_at_def)
  from 1 2 3 show ?thesis by simp
qed

text \<open>
  The Aurora client shows 480 minutes as \<^verbatim>\<open>8h\<close>, not as \<^verbatim>\<open>8h 0m\<close>.
\<close>

theorem aurora_whole_hours_counterexample:
  "formatCountdown (Num (spec_countdown_minutes 300 1260)) = ''8h''
   \<and> spec_format (spec_countdown_minutes 300 1260) = ''8h 0m''"
  by (simp add: formatCountdown_def spec_format_def spec_countdown_minutes_def string_eval Let_def)

section \<open>The offline cache worker: cache first, network first\<close>

lemma cache_lookup_open: "cache_lookup nm' (caches_open nm cs) req = cache_lookup nm' cs req"
  by (induction cs) (auto simp: cache_lookup_def)

lemma caches_match_open: "caches_match (caches_open nm cs) req = caches_match cs req"
  by (induction cs) (auto split: option.splits)

lemma cache_lookup_put: "cache_lookup nm (cache_put nm req r (caches_open nm cs)) req = Some r"
  by (induction cs) (auto simp: cache_lookup_def)

lemma open_put_accepted:
  "put_accepts r \<Longrightarrow> cache_lookup nm (open_put nm req r cs) req = Some r"
  by (simp add: open_put_def cache_lookup_put)

lemma open_put_refused:
  "\<not> put_accepts r \<Longrightarrow> cache_lookup nm' (open_put nm req r cs) req' = cache_lookup nm' cs req'"
  by (simp add: open_put_def cache_lookup_open)

lemma caches_match_held:
  "cache_lookup nm cs req = Some r \<Longrightarrow> \<exists>r'. caches_match cs req = Some r'"
  by (induction cs) (auto simp: cache_lookup_def split: option.splits if_splits)

lemma caches_match_first:
  "\<forall>e \<in> set pre. snd e req = None \<Longrightarrow> c req = Some r \<Longrightarrow>
   caches_match (pre @ (nm, c) # rest) req = Some r"
  by (induction pre) auto

text \<open>
  C3 (as amended). A request held by the app-shell cache is answered from the cache
  storage with no network request and no change of state; the answer is the response
  \<^verbatim>\<open>caches.match\<close> finds, which is the app-shell cache's own entry when no cache
  created before it holds the request. On a miss in the whole cache storage the network
  is asked once and its response is returned; the response is stored in the app-shell
  cache under the request when the platform's cache accepts it (a status other than 206
  and no \<^verbatim>\<open>Vary: *\<close>), and otherwise nothing is stored and every cache keeps
  what it held.
\<close>

theorem cacheFirst_contract:
  "(cache_lookup APP_SHELL_CACHE (caches w) request = Some r \<longrightarrow>
      (\<exists>r'. caches_match (caches w) request = Some r' \<and> cacheFirst net w request = (Inr r', w)))
   \<and> (caches w = pre @ (APP_SHELL_CACHE, c) # rest \<longrightarrow> (\<forall>e \<in> set pre. snd e request = None) \<longrightarrow>
        c request = Some r \<longrightarrow> cacheFirst net w request = (Inr r, w))
   \<and> (caches_match (caches w) request = None \<longrightarrow> net request = Some fresh \<longrightarrow>
        cacheFirst net w request =
          (Inr fresh, w\<lparr> fetches := fetches w @ [request],
                          caches := open_put APP_SHELL_CACHE request fresh (caches w) \<rparr>)
        \<and> (put_accepts fresh \<longrightarrow>
              cache_lookup APP_SHELL_CACHE (open_put APP_SHELL_CACHE request fresh (caches w)) request
                = Some fresh)
        \<and> (\<not> put_accepts fresh \<longrightarrow>
              caches_match (open_put APP_SHELL_CACHE request fresh (caches w)) request = None
              \<and> (\<forall>nm req. cache_lookup nm (open_put APP_SHELL_CACHE request fresh (caches w)) req
                                = cache_lookup nm (caches w) req)))"
proof (intro conjI impI allI)
  assume h: "cache_lookup APP_SHELL_CACHE (caches w) request = Some r"
  from caches_match_held [OF h] obtain r' where m: "caches_match (caches w) request = Some r'" ..
  then have "cacheFirst net w request = (Inr r', w)" by (simp add: cacheFirst_def)
  with m show "\<exists>r'. caches_match (caches w) request = Some r' \<and> cacheFirst net w request = (Inr r', w)"
    by blast
next
  assume f: "caches w = pre @ (APP_SHELL_CACHE, c) # rest"
    and p: "\<forall>e \<in> set pre. snd e request = None" and h: "c request = Some r"
  from p h have "caches_match (pre @ (APP_SHELL_CACHE, c) # rest) request = Some r"
    by (rule caches_match_first)
  with f have "caches_match (caches w) request = Some r" by simp
  then show "cacheFirst net w request = (Inr r, w)"
    by (simp add: cacheFirst_def)
next
  assume "caches_match (caches w) request = None" and "net request = Some fresh"
  then show "cacheFirst net w request =
          (Inr fresh, w\<lparr> fetches := fetches w @ [request],
                          caches := open_put APP_SHELL_CACHE request fresh (caches w) \<rparr>)"
    by (simp add: cacheFirst_def fetch_def)
next
  assume "put_accepts fresh"
  then show "cache_lookup APP_SHELL_CACHE (open_put APP_SHELL_CACHE request fresh (caches w)) request
            = Some fresh"
    by (rule open_put_accepted)
next
  assume "caches_match (caches w) request = None" and "\<not> put_accepts fresh"
  then show "caches_match (open_put APP_SHELL_CACHE request fresh (caches w)) request = None"
    by (simp add: open_put_def caches_match_open)
next
  fix nm req
  assume "\<not> put_accepts fresh"
  then show "cache_lookup nm (open_put APP_SHELL_CACHE request fresh (caches w)) req
           = cache_lookup nm (caches w) req"
    by (rule open_put_refused)
qed

lemmas worker_eval = installed_def APP_SHELL_CACHE_def API_CACHE_def VERSION_def cache_lookup_def
  offline_def online_def

lemmas put_eval = put_accepts_def header_values_def ascii_lower_def trim_def isWhite_def
  icon_def script_def server_error_def partial_content_def varying_def

theorem cacheFirst_contract_witness:
  "cacheFirst offline installed ''/favicon.ico'' = (Inr icon, installed)
   \<and> cacheFirst online installed ''/favicon.ico'' = (Inr icon, installed)
   \<and> cacheFirst online installed ''/_next/static/app.js'' =
        (Inr script,
         \<lparr> caches = [(APP_SHELL_CACHE, [''/favicon.ico'' \<mapsto> icon, ''/_next/static/app.js'' \<mapsto> script])],
           fetches = [''/_next/static/app.js''] \<rparr>)
   \<and> caches_match (open_put APP_SHELL_CACHE ''/_next/static/media/intro.mp4'' partial_content
         (caches installed)) ''/_next/static/media/intro.mp4'' = None"
proof -
  have hit: "cache_lookup APP_SHELL_CACHE (caches installed) ''/favicon.ico'' = Some icon"
    by (simp add: worker_eval)
  have first: "caches installed = [] @ (APP_SHELL_CACHE, [''/favicon.ico'' \<mapsto> icon]) # []"
    by (simp add: installed_def)
  have pre: "\<forall>e \<in> set ([] :: cache_storage). snd e ''/favicon.ico'' = None" by simp
  have own: "[''/favicon.ico'' \<mapsto> icon] ''/favicon.ico'' = Some icon" by simp
  have miss: "caches_match (caches installed) ''/_next/static/app.js'' = None"
    by (simp add: worker_eval)
  have miss2: "caches_match (caches installed) ''/_next/static/media/intro.mp4'' = None"
    by (simp add: worker_eval)
  have net: "online ''/_next/static/app.js'' = Some script"
    by (simp add: online_def)
  have net2: "online ''/_next/static/media/intro.mp4'' = Some partial_content"
    by (simp add: online_def)
  have acc: "put_accepts script" by (simp add: put_eval)
  have ref: "\<not> put_accepts partial_content" by (simp add: put_eval)
  have upd: "installed\<lparr> fetches := fetches installed @ [''/_next/static/app.js''],
               caches := open_put APP_SHELL_CACHE ''/_next/static/app.js'' script (caches installed) \<rparr>
     = \<lparr> caches = [(APP_SHELL_CACHE, [''/favicon.ico'' \<mapsto> icon, ''/_next/static/app.js'' \<mapsto> script])],
           fetches = [''/_next/static/app.js''] \<rparr>"
    by (simp add: installed_def open_put_def acc)
  from cacheFirst_contract [of installed "''/favicon.ico''" icon offline "[]"] first pre own
  have 1: "cacheFirst offline installed ''/favicon.ico'' = (Inr icon, installed)" by blast
  from cacheFirst_contract [of installed "''/favicon.ico''" icon online "[]"] first pre own
  have 2: "cacheFirst online installed ''/favicon.ico'' = (Inr icon, installed)" by blast
  from cacheFirst_contract [of installed "''/_next/static/app.js''" _ online _ _ _ script] miss net
  have 3: "cacheFirst online installed ''/_next/static/app.js'' =
      (Inr script, installed\<lparr> fetches := fetches installed @ [''/_next/static/app.js''],
               caches := open_put APP_SHELL_CACHE ''/_next/static/app.js'' script (caches installed) \<rparr>)"
    by blast
  from cacheFirst_contract [of installed "''/_next/static/media/intro.mp4''" _ online _ _ _ partial_content]
    miss2 net2 ref
  have 4: "caches_match (open_put APP_SHELL_CACHE ''/_next/static/media/intro.mp4'' partial_content
         (caches installed)) ''/_next/static/media/intro.mp4'' = None"
    by blast
  from 1 2 3 4 show ?thesis unfolding upd by simp
qed

text \<open>
  A partial response on a miss is returned and not stored: afterwards the app-shell cache
  still holds nothing for the request. And where a cache created before the app-shell
  cache holds the request too, the answer is that cache's response, not the app-shell
  cache's.
\<close>

theorem cacheFirst_partial_counterexample:
  "caches_match (caches installed) ''/_next/static/media/intro.mp4'' = None
   \<and> fst (cacheFirst online installed ''/_next/static/media/intro.mp4'') = Inr partial_content
   \<and> cache_lookup APP_SHELL_CACHE
        (caches (snd (cacheFirst online installed ''/_next/static/media/intro.mp4'')))
        ''/_next/static/media/intro.mp4'' = None
   \<and> cache_lookup APP_SHELL_CACHE (caches api_first) ''/favicon.ico'' = Some icon
   \<and> cacheFirst online api_first ''/favicon.ico'' = (Inr script, api_first)
   \<and> script \<noteq> icon"
  by (simp add: cacheFirst_def fetch_def open_put_def worker_eval put_eval api_first_def)

text \<open>
  C4 (as amended). When the fetch succeeds, with any HTTP status, the network's response
  is returned; it is stored in the API cache under the request when the platform's cache
  accepts it (a status other than 206 and no \<^verbatim>\<open>Vary: *\<close>), and otherwise the
  caches keep what they held. When the fetch throws, the cached response of the request
  is returned if the cache storage holds one, and otherwise the synthesized response
  with status 503 and the JSON body \<^verbatim>\<open>{"error":"Offline and no cache"}\<close>.
\<close>

theorem networkFirst_contract:
  \<open>(net request = Some fresh \<longrightarrow>
      networkFirst net w request =
        (fresh, w\<lparr> fetches := fetches w @ [request],
                    caches := open_put API_CACHE request fresh (caches w) \<rparr>)
      \<and> (put_accepts fresh \<longrightarrow>
            cache_lookup API_CACHE (open_put API_CACHE request fresh (caches w)) request = Some fresh)
      \<and> (\<not> put_accepts fresh \<longrightarrow>
            (\<forall>nm req. cache_lookup nm (open_put API_CACHE request fresh (caches w)) req
                        = cache_lookup nm (caches w) req)))
   \<and> (net request = None \<longrightarrow> caches_match (caches w) request = Some cached \<longrightarrow>
        networkFirst net w request = (cached, w\<lparr> fetches := fetches w @ [request] \<rparr>))
   \<and> (net request = None \<longrightarrow> caches_match (caches w) request = None \<longrightarrow>
        networkFirst net w request = (offline_response, w\<lparr> fetches := fetches w @ [request] \<rparr>))
   \<and> status offline_response = 503
   \<and> body offline_response = ''{"error":"Offline and no cache"}''
   \<and> headers offline_response = [(''Content-Type'', ''application/json'')]\<close>
  by (simp add: networkFirst_def fetch_def open_put_accepted open_put_refused offline_response_def)

theorem networkFirst_contract_witness:
  "networkFirst online installed ''/api/weather'' =
     (server_error,
      \<lparr> caches = [(APP_SHELL_CACHE, [''/favicon.ico'' \<mapsto> icon]), (API_CACHE, [''/api/weather'' \<mapsto> server_error])],
        fetches = [''/api/weather''] \<rparr>)
   \<and> cache_lookup API_CACHE (open_put API_CACHE ''/api/varying'' varying (caches installed)) ''/api/varying''
       = None
   \<and> networkFirst offline api_cached ''/api/hadith'' = (script, api_cached\<lparr> fetches := [''/api/hadith''] \<rparr>)
   \<and> networkFirst offline api_cached ''/api/weather'' = (offline_response, api_cached\<lparr> fetches := [''/api/weather''] \<rparr>)"
proof -
  have net: "online ''/api/weather'' = Some server_error" by (simp add: online_def)
  have net2: "online ''/api/varying'' = Some varying" by (simp add: online_def)
  have off: "offline ''/api/hadith'' = None" "offline ''/api/weather'' = None" by (simp_all add: offline_def)
  have hit: "caches_match (caches api_cached) ''/api/hadith'' = Some script"
    by (simp add: api_cached_def)
  have miss: "caches_match (caches api_cached) ''/api/weather'' = None"
    by (simp add: api_cached_def)
  have acc: "put_accepts server_error" by (simp add: put_eval)
  have ref: "\<not> put_accepts varying" by (simp add: put_eval)
  have before: "cache_lookup API_CACHE (caches installed) ''/api/varying'' = None"
    by (simp add: worker_eval)
  have upd: "installed\<lparr> fetches := fetches installed @ [''/api/weather''],
                    caches := open_put API_CACHE ''/api/weather'' server_error (caches installed) \<rparr>
      = \<lparr> caches = [(APP_SHELL_CACHE, [''/favicon.ico'' \<mapsto> icon]), (API_CACHE, [''/api/weather'' \<mapsto> server_error])],
        fetches = [''/api/weather''] \<rparr>"
    by (simp add: installed_def APP_SHELL_CACHE_def API_CACHE_def VERSION_def open_put_def acc)
  have f: "fetches api_cached = []" by (simp add: api_cached_def)
  from networkFirst_contract [of online "''/api/weather''" server_error installed] net
  have 1: "networkFirst online installed ''/api/weather'' =
        (server_error, installed\<lparr> fetches := fetches installed @ [''/api/weather''],
                    caches := open_put API_CACHE ''/api/weather'' server_error (caches installed) \<rparr>)"
    by blast
  from networkFirst_contract [of online "''/api/varying''" varying installed] net2 ref before
  have 2: "cache_lookup API_CACHE (open_put API_CACHE ''/api/varying'' varying (caches installed)) ''/api/varying''
       = None"
    by simp
  from networkFirst_contract [of offline "''/api/hadith''" _ api_cached script] off hit
  have 3: "networkFirst offline api_cached ''/api/hadith'' = (script, api_cached\<lparr> fetches := fetches api_cached @ [''/api/hadith''] \<rparr>)"
    by blast
  from networkFirst_contract [of offline "''/api/weather''" _ api_cached] off miss
  have 4: "networkFirst offline api_cached ''/api/weather'' = (offline_response, api_cached\<lparr> fetches := fetches api_cached @ [''/api/weather''] \<rparr>)"
    by blast
  from 1 2 3 4 show ?thesis unfolding upd f by simp
qed

text \<open>
  A response that varies on everything is returned by the fetch and not stored: the API
  cache holds nothing for the request afterwards, so the claim's "stores a clone" fails
  for it.
\<close>

theorem networkFirst_vary_counterexample:
  "fst (networkFirst online installed ''/api/varying'') = varying
   \<and> cache_lookup API_CACHE (caches (snd (networkFirst online installed ''/api/varying'')))
        ''/api/varying'' = None"
  by (simp add: networkFirst_def fetch_def open_put_def worker_eval put_eval)

section \<open>Weather proxy: numbers and days\<close>

lemma num_cases: "num v = JNull \<or> (\<exists>x. v = JNum (Finite x) \<and> num v = JNum (Finite x))"
  by (cases v rule: num.cases) simp_all

lemma num_defined [simp]: "num v \<noteq> JUndefined"
  using num_cases [of v] by auto

lemma json_wire_num [simp]: "json_wire (num v) = num v"
  using num_cases [of v] by auto

lemma fin_or_null_num [simp]: "fin_or_null (num v)"
  using num_cases [of v] by (auto simp: fin_or_null_def)

lemma fin_or_null_wire_number [simp]: "fin_or_null (json_wire (JNum n))"
  by (cases n) (simp_all add: fin_or_null_def)

lemma error_json_code: "code (error_json msg st) = st"
  by (simp add: error_json_def NextResponse_json_def)

lemma forecast_step_200:
  assumes "forecast_step fRes locName lat lon = Inr resp" and "code resp = 200"
  shows "\<exists>st f out. fRes = Reply st (Some f) \<and> ok st \<and> weather_out locName lat lon f = Inr out
           \<and> payload resp = json_wire out"
  using assms
  by (auto simp: forecast_step_def error_json_code NextResponse_json_def
      split: upstream.splits if_splits option.splits sum.splits)

lemma geocode_step_200:
  assumes "geocode_step pf geoRes fRes city = Inr resp" and "code resp = 200"
  shows "\<exists>locName x1 x2. forecast_step fRes locName (JNum x1) (JNum x2) = Inr resp"
proof -
  have num_number: "num v \<noteq> JNull \<Longrightarrow> \<exists>n. num v = JNum n" for v
    using num_cases [of v] by auto
  from assms obtain locName v1 v2 where
    fs: "forecast_step fRes locName (num v1) (num v2) = Inr resp"
    and nn: "num v1 \<noteq> JNull" "num v2 \<noteq> JNull"
    by (auto simp: geocode_step_def Let_def error_json_code
        split: upstream.splits if_splits option.splits)
  from num_number [OF nn(1)] num_number [OF nn(2)] fs show ?thesis by metis
qed

lemma query_coordinate:
  "(case p of None \<Rightarrow> JNull | Some s \<Rightarrow> if s = [] then JNull else JNum (g s)) \<noteq> JNull
   \<Longrightarrow> \<exists>n. (case p of None \<Rightarrow> JNull | Some s \<Rightarrow> if s = [] then JNull else JNum (g s)) = JNum n"
  by (auto split: option.splits if_splits)

lemma GET_weather_200_step:
  assumes "GET_weather pf geoRes fRes q = Inr resp" and "code resp = 200"
  shows "\<exists>locName n1 n2. forecast_step fRes locName (JNum n1) (JNum n2) = Inr resp"
proof -
  let ?city = "trim (case q_city q of None \<Rightarrow> [] | Some s \<Rightarrow> s)"
  let ?lat = "case q_lat q of None \<Rightarrow> JNull | Some s \<Rightarrow> if s = [] then JNull else JNum (parse_number pf s)"
  let ?lon = "case q_lon q of None \<Rightarrow> JNull | Some s \<Rightarrow> if s = [] then JNull else JNum (parse_number pf s)"
  have not400: "\<not> (?city = [] \<and> (\<not> present (q_lat q) \<or> \<not> present (q_lon q)))"
  proof
    assume "?city = [] \<and> (\<not> present (q_lat q) \<or> \<not> present (q_lon q))"
    then have "GET_weather pf geoRes fRes q = Inr (error_json ''Missing city (or lat/lon)'' 400)"
      by (simp add: GET_weather_def Let_def)
    with assms have "code (error_json ''Missing city (or lat/lon)'' 400) = 200" by simp
    then show False by (simp add: error_json_code)
  qed
  have unf: "GET_weather pf geoRes fRes q =
      (if ?city = [] \<and> (\<not> present (q_lat q) \<or> \<not> present (q_lon q))
       then Inr (error_json ''Missing city (or lat/lon)'' 400)
       else if ?lat = JNull \<or> ?lon = JNull then geocode_step pf geoRes fRes ?city
       else forecast_step fRes (if ?city = [] then ''Unknown'' else ?city) ?lat ?lon)"
    unfolding GET_weather_def Let_def by (rule refl)
  show ?thesis
  proof (cases "?lat = JNull \<or> ?lon = JNull")
    case True
    have "GET_weather pf geoRes fRes q = geocode_step pf geoRes fRes ?city"
      unfolding unf by (simp only: not400 True if_False if_True)
    with assms geocode_step_200 show ?thesis by metis
  next
    case False
    have g: "GET_weather pf geoRes fRes q =
        forecast_step fRes (if ?city = [] then ''Unknown'' else ?city) ?lat ?lon"
      unfolding unf by (simp only: not400 False if_False)
    from False query_coordinate [where p = "q_lat q" and g = "parse_number pf"]
      query_coordinate [where p = "q_lon q" and g = "parse_number pf"]
    obtain n1 n2 where l: "?lat = JNum n1" "?lon = JNum n2" by blast
    from g assms(1) have "forecast_step fRes (if ?city = [] then ''Unknown'' else ?city) ?lat ?lon = Inr resp"
      by (simp only:)
    then have "forecast_step fRes (if ?city = [] then ''Unknown'' else ?city) (JNum n1) (JNum n2) = Inr resp"
      by (simp only: l)
    then show ?thesis by blast
  qed
qed

lemma GET_weather_200:
  assumes "GET_weather pf geoRes fRes q = Inr resp" and "code resp = 200"
  shows "\<exists>st f out locName n1 n2. fRes = Reply st (Some f) \<and> ok st
           \<and> weather_out locName (JNum n1) (JNum n2) f = Inr out
           \<and> payload resp = json_wire out"
proof -
  from GET_weather_200_step [OF assms] obtain locName n1 n2 where
    "forecast_step fRes locName (JNum n1) (JNum n2) = Inr resp" by blast
  from forecast_step_200 [OF this assms(2)] show ?thesis by blast
qed





lemma weather_out_Inr:
  assumes "weather_out locName lat lon f = Inr out"
  shows "\<exists>ds. js_or (get_prop (get_prop f ''daily'') ''time'') (JArr []) = JArr ds
           \<and> out = JObj
               [(''location'', JObj [(''name'', JStr locName), (''latitude'', lat), (''longitude'', lon)]),
                (''current'',
                   JObj [(''temperature'', num (get_prop (get_prop f ''current_weather'') ''temperature'')),
                         (''weathercode'', num (get_prop (get_prop f ''current_weather'') ''weathercode''))]),
                (''daily'', JArr (map (daily_entry
                     (js_or (get_prop (get_prop f ''daily'') ''temperature_2m_max'') (JArr []))
                     (js_or (get_prop (get_prop f ''daily'') ''temperature_2m_min'') (JArr []))
                     (js_or (get_prop (get_prop f ''daily'') ''precipitation_probability_max'') (JArr []))
                     (js_or (get_prop (get_prop f ''daily'') ''weathercode'') (JArr [])))
                   (enumerate 0 ds)))]"
  using assms by (auto simp: weather_out_def Let_def split: jsval.splits)

lemma wire_daily_entry:
  "get_prop (json_wire (daily_entry a b c e (i, d))) ''date'' = (if d = JUndefined then JUndefined else json_wire d)"
  "get_prop (json_wire (daily_entry a b c e (i, d))) ''tmax'' = num (get_index a i)"
  "get_prop (json_wire (daily_entry a b c e (i, d))) ''tmin'' = num (get_index b i)"
  "get_prop (json_wire (daily_entry a b c e (i, d))) ''precipProbMax'' = num (get_index c i)"
  "get_prop (json_wire (daily_entry a b c e (i, d))) ''weathercode'' = num (get_index e i)"
  by (simp_all add: daily_entry_def)

lemma wire_out:
  "json_wire (JObj
               [(''location'', JObj [(''name'', JStr locName), (''latitude'', JNum n1), (''longitude'', JNum n2)]),
                (''current'', JObj [(''temperature'', num t), (''weathercode'', num w)]),
                (''daily'', JArr days)])
   = JObj [(''location'', JObj [(''name'', JStr locName), (''latitude'', json_wire (JNum n1)),
                                (''longitude'', json_wire (JNum n2))]),
           (''current'', JObj [(''temperature'', num t), (''weathercode'', num w)]),
           (''daily'', JArr (map json_wire days))]"
  by simp

text \<open>
  C5. In every 200 response of the weather proxy, as the client reads it, the
  location's latitude and longitude, the current temperature and weather code and each
  day's tmax, tmin, precipProbMax and weathercode are a finite number or
  \<^verbatim>\<open>null\<close>. The upstream values pass through \<^verbatim>\<open>num\<close>; coordinates given
  in the query are numbers by \<^verbatim>\<open>Number\<close> and, when not finite, become
  \<^verbatim>\<open>null\<close> in the JSON text.
\<close>

theorem weather_numbers_finite_or_null:
  assumes "GET_weather pf geoRes fRes q = Inr resp" and "code resp = 200"
  shows "fin_or_null (get_prop (get_prop (payload resp) ''location'') ''latitude'')
       \<and> fin_or_null (get_prop (get_prop (payload resp) ''location'') ''longitude'')
       \<and> fin_or_null (get_prop (get_prop (payload resp) ''current'') ''temperature'')
       \<and> fin_or_null (get_prop (get_prop (payload resp) ''current'') ''weathercode'')
       \<and> (\<exists>days. get_prop (payload resp) ''daily'' = JArr days
             \<and> (\<forall>e \<in> set days.
                   fin_or_null (get_prop e ''tmax'') \<and> fin_or_null (get_prop e ''tmin'')
                   \<and> fin_or_null (get_prop e ''precipProbMax'')
                   \<and> fin_or_null (get_prop e ''weathercode'')))"
proof -
  from GET_weather_200 [OF assms] obtain st f out locName n1 n2 where
    out: "weather_out locName (JNum n1) (JNum n2) f = Inr out" and p: "payload resp = json_wire out"
    by blast
  from weather_out_Inr [OF out] obtain ds where
    o: "out = JObj
               [(''location'', JObj [(''name'', JStr locName), (''latitude'', JNum n1), (''longitude'', JNum n2)]),
                (''current'',
                   JObj [(''temperature'', num (get_prop (get_prop f ''current_weather'') ''temperature'')),
                         (''weathercode'', num (get_prop (get_prop f ''current_weather'') ''weathercode''))]),
                (''daily'', JArr (map (daily_entry
                     (js_or (get_prop (get_prop f ''daily'') ''temperature_2m_max'') (JArr []))
                     (js_or (get_prop (get_prop f ''daily'') ''temperature_2m_min'') (JArr []))
                     (js_or (get_prop (get_prop f ''daily'') ''precipitation_probability_max'') (JArr []))
                     (js_or (get_prop (get_prop f ''daily'') ''weathercode'') (JArr [])))
                   (enumerate 0 ds)))]"
    by blast
  let ?entry = "daily_entry
                     (js_or (get_prop (get_prop f ''daily'') ''temperature_2m_max'') (JArr []))
                     (js_or (get_prop (get_prop f ''daily'') ''temperature_2m_min'') (JArr []))
                     (js_or (get_prop (get_prop f ''daily'') ''precipitation_probability_max'') (JArr []))
                     (js_or (get_prop (get_prop f ''daily'') ''weathercode'') (JArr []))"
  have w: "payload resp =
      JObj [(''location'', JObj [(''name'', JStr locName), (''latitude'', json_wire (JNum n1)),
                                (''longitude'', json_wire (JNum n2))]),
           (''current'',
              JObj [(''temperature'', num (get_prop (get_prop f ''current_weather'') ''temperature'')),
                    (''weathercode'', num (get_prop (get_prop f ''current_weather'') ''weathercode''))]),
           (''daily'', JArr (map json_wire (map ?entry (enumerate 0 ds))))]"
    unfolding p o by (rule wire_out)
  have days: "fin_or_null (get_prop e ''tmax'') \<and> fin_or_null (get_prop e ''tmin'')
                   \<and> fin_or_null (get_prop e ''precipProbMax'')
                   \<and> fin_or_null (get_prop e ''weathercode'')"
    if "e \<in> set (map json_wire (map ?entry (enumerate 0 ds)))" for e
  proof -
    from that obtain i d where "e = json_wire (?entry (i, d))" by auto
    then show ?thesis by (simp add: wire_daily_entry)
  qed
  have d: "get_prop (payload resp) ''daily'' = JArr (map json_wire (map ?entry (enumerate 0 ds)))"
    unfolding w by simp
  have l: "fin_or_null (get_prop (get_prop (payload resp) ''location'') ''latitude'')"
    "fin_or_null (get_prop (get_prop (payload resp) ''location'') ''longitude'')"
    "fin_or_null (get_prop (get_prop (payload resp) ''current'') ''temperature'')"
    "fin_or_null (get_prop (get_prop (payload resp) ''current'') ''weathercode'')"
    unfolding w by simp_all
  from l d days show ?thesis by blast
qed

lemma sample_weather_run:
  "GET_weather sample_platform Unreachable (Reply 200 (Some sample_forecast)) sample_query
     = Inr sample_weather"
  by (simp add: GET_weather_def forecast_step_def weather_out_def daily_entry_def
      NextResponse_json_def js_or_def present_def trim_def isWhite_def ok_def
      sample_platform_def sample_forecast_def sample_query_def sample_weather_def sample_days_def
      enumerate_eq_zip upt_rec Let_def)

theorem weather_numbers_finite_or_null_witness:
  "GET_weather sample_platform Unreachable (Reply 200 (Some sample_forecast)) sample_query
     = Inr sample_weather
   \<and> get_prop (get_prop sample_forecast ''current_weather'') ''temperature'' = JStr ''hot''
   \<and> get_prop (get_prop (payload sample_weather) ''current'') ''temperature'' = JNull
   \<and> get_prop (get_prop (payload sample_weather) ''location'') ''latitude'' = JNull
   \<and> fin_or_null (get_prop (get_prop (payload sample_weather) ''location'') ''longitude'')
   \<and> list_all (\<lambda>e. fin_or_null (get_prop e ''tmax'') \<and> fin_or_null (get_prop e ''tmin'')
                   \<and> fin_or_null (get_prop e ''precipProbMax'')
                   \<and> fin_or_null (get_prop e ''weathercode'')) sample_days"
proof -
  have c: "code sample_weather = 200" by (simp add: sample_weather_def)
  have d: "get_prop (payload sample_weather) ''daily'' = JArr sample_days"
    by (simp add: sample_weather_def)
  from weather_numbers_finite_or_null [OF sample_weather_run c] d
  have "fin_or_null (get_prop (get_prop (payload sample_weather) ''location'') ''longitude'')"
    and "\<forall>e \<in> set sample_days. fin_or_null (get_prop e ''tmax'') \<and> fin_or_null (get_prop e ''tmin'')
                   \<and> fin_or_null (get_prop e ''precipProbMax'')
                   \<and> fin_or_null (get_prop e ''weathercode'')"
    by auto
  moreover have "get_prop (get_prop sample_forecast ''current_weather'') ''temperature'' = JStr ''hot''"
    "get_prop (get_prop (payload sample_weather) ''current'') ''temperature'' = JNull"
    "get_prop (get_prop (payload sample_weather) ''location'') ''latitude'' = JNull"
    by (simp_all add: sample_forecast_def sample_weather_def)
  ultimately show ?thesis using sample_weather_run by (simp add: list_all_iff)
qed





section \<open>Hadith proxy: determinism in edition and seed\<close>





















end
